theory Spec2Isabelle
  imports Main "HOL-Library.Word"
begin

unbundle bit_operations_syntax

section \<open>Objects of numpy/core/src/multiarray/array\_method.c\<close>

text \<open>
  The file works on C structs reached through pointers.  A pointer that may be
  \<^verbatim>\<open>NULL\<close> is an \<open>option\<close>; an object carries its address where the code compares
  pointers (\<^verbatim>\<open>NPY_DTYPE(descr) == dtype\<close>, \<^verbatim>\<open>descrs[i] != out_descrs[i]\<close>).
  C arrays are lists that hold at least as many entries as the loops of the source
  index (\<^verbatim>\<open>nin + nout\<close>, one more for the mask of the masked loop).
  \<^verbatim>\<open>int\<close> and \<^verbatim>\<open>npy_intp\<close> are \<open>int\<close>.  The sum of the two arities of a
  specification, which the caller chooses freely, wraps around as the 32-bit sum does
  (\<open>int_add\<close>); a built method has arities that add up to at most \<^verbatim>\<open>NPY_MAXARGS\<close>,
  and offsets stay inside one buffer, so these sums are exact; the bitwise operations on
  \<^verbatim>\<open>NPY_CASTING\<close> and the flags are those of two's complement.
  Reference counts are not modelled, and of the allocations only the one that cannot
  succeed (a negative count of pointers, in the constructor).
\<close>

datatype pyexc = PyExc_TypeError | PyExc_ValueError | PyExc_RuntimeError | PyExc_MemoryError

text \<open>
  How a call ends other than by a result: an exception this file raises (its type and the
  head of its message), an error an external callee has set, a negative result of an inner
  loop, a read through a null (or wrongly typed) pointer, which C leaves undefined and
  which stops the process, or a call of \<^verbatim>\<open>PyErr_Format\<close> whose format names more
  arguments than the call passes, which C leaves undefined too (\<open>Undefined\<close>: nothing is
  promised about what happens then).
\<close>

datatype error =
    PyErr pyexc string
  | ExternalError nat
  | LoopFailed int
  | Segfault
  | Undefined

record PyArray_Descr =
  ob_addr :: nat
  ob_type :: nat
  byteorder_native :: bool
  elsize :: int

text \<open>
  A DType class.  \<open>is_DTypeMeta\<close> is what
  \<^verbatim>\<open>PyObject_TypeCheck(dtype, &PyArrayDTypeMeta_Type)\<close> answers for the object:
  the array of a specification is declared \<^verbatim>\<open>PyArray_DTypeMeta **\<close>, but a caller can
  store any object there.  \<open>default_descr\<close> is the result of the class's slot
  \<^verbatim>\<open>dtype->default_descr(dtype)\<close>.
\<close>

record PyArray_DTypeMeta =
  dt_addr :: nat
  is_DTypeMeta :: bool
  is_abstract :: bool
  is_parametric :: bool
  default_descr :: "error + PyArray_Descr"

text \<open>
  Function pointers (\<^verbatim>\<open>void *pfunc\<close> of a slot, and the fields of a method): null, one
  of the two built-in functions whose address the file compares with, or a function of the
  caller, named by its address.
\<close>

datatype fnptr =
    NullFn
  | Default_resolve_descriptors
  | Npy_default_get_strided_loop
  | UserFn nat

record PyArrayMethodObject =
  name :: string
  nin :: int
  nout :: int
  casting :: int
  flags :: int
  resolve_descriptors :: fnptr
  get_strided_loop :: fnptr
  strided_loop :: fnptr
  contiguous_loop :: fnptr
  unaligned_strided_loop :: fnptr
  unaligned_contiguous_loop :: fnptr

record PyBoundArrayMethodObject =
  dtypes :: "PyArray_DTypeMeta option list"
  meth :: PyArrayMethodObject

record PyArrayMethod_Spec =
  spec_name :: "string option"
  spec_nin :: int
  spec_nout :: int
  spec_casting :: int
  spec_flags :: int
  spec_dtypes :: "PyArray_DTypeMeta option list"
  spec_slots :: "(int \<times> fnptr) list"

record PyArrayMethod_Context =
  caller :: "nat option"
  ctx_method :: PyArrayMethodObject
  descriptors :: "PyArray_Descr list"

text \<open>
  The collaborators the file calls and does not define: the common-class capability of
  the DType hierarchy, the constructor of a descriptor in native byte order, and the
  functions behind the caller's pointers (a resolver, a loop selector, an inner loop).
  A resolver answers \<open>Inl\<close> when it returns a negative level with an error set, and
  \<open>Inr (level, descrs)\<close> otherwise (the level may be negative, with no error set).
\<close>

record externals =
  PyArray_CommonDType ::
    "PyArray_DTypeMeta \<Rightarrow> PyArray_DTypeMeta \<Rightarrow> error + PyArray_DTypeMeta"
  PyArray_DescrNewByteorder :: "PyArray_Descr \<Rightarrow> error + PyArray_Descr"
  user_resolve_descriptors ::
    "nat \<Rightarrow> PyArrayMethodObject \<Rightarrow> PyArray_DTypeMeta option list \<Rightarrow>
       PyArray_Descr option list \<Rightarrow> error + (int \<times> PyArray_Descr option list)"
  user_get_strided_loop ::
    "nat \<Rightarrow> PyArrayMethod_Context \<Rightarrow> int \<Rightarrow> int list \<Rightarrow>
       error + (fnptr \<times> nat option \<times> int)"
  user_strided_loop ::
    "nat \<Rightarrow> PyArrayMethod_Context \<Rightarrow> int list \<Rightarrow> int \<Rightarrow> int list \<Rightarrow> nat option \<Rightarrow> int"

subsection \<open>Constants of the headers\<close>

definition NPY_MAXARGS :: int where "NPY_MAXARGS = 32"

definition NPY_NO_CASTING :: int where "NPY_NO_CASTING = 0"
definition NPY_EQUIV_CASTING :: int where "NPY_EQUIV_CASTING = 1"
definition NPY_SAFE_CASTING :: int where "NPY_SAFE_CASTING = 2"
definition NPY_SAME_KIND_CASTING :: int where "NPY_SAME_KIND_CASTING = 3"
definition NPY_UNSAFE_CASTING :: int where "NPY_UNSAFE_CASTING = 4"
definition NPY_CAST_IS_VIEW :: int where "NPY_CAST_IS_VIEW = 65536"

definition NPY_METH_REQUIRES_PYAPI :: int where "NPY_METH_REQUIRES_PYAPI = 2"
definition NPY_METH_NO_FLOATINGPOINT_ERRORS :: int where "NPY_METH_NO_FLOATINGPOINT_ERRORS = 4"
definition NPY_METH_SUPPORTS_UNALIGNED :: int where "NPY_METH_SUPPORTS_UNALIGNED = 8"
definition NPY_METH_RUNTIME_FLAGS :: int where
  "NPY_METH_RUNTIME_FLAGS = NPY_METH_REQUIRES_PYAPI OR NPY_METH_NO_FLOATINGPOINT_ERRORS"

definition NPY_METH_resolve_descriptors :: int where "NPY_METH_resolve_descriptors = 1"
definition NPY_METH_get_loop :: int where "NPY_METH_get_loop = 2"
definition NPY_METH_strided_loop :: int where "NPY_METH_strided_loop = 3"
definition NPY_METH_contiguous_loop :: int where "NPY_METH_contiguous_loop = 4"
definition NPY_METH_unaligned_strided_loop :: int where "NPY_METH_unaligned_strided_loop = 5"
definition NPY_METH_unaligned_contiguous_loop :: int where
  "NPY_METH_unaligned_contiguous_loop = 6"

subsection \<open>Helpers of other files\<close>

text \<open>The sum of two C \<^verbatim>\<open>int\<close>s as the 32-bit addition gives it (two's complement).\<close>

definition int_add :: "int \<Rightarrow> int \<Rightarrow> int" where
  "int_add a b = (a + b + 2147483648) mod 4294967296 - 2147483648"

text \<open>
  \<^verbatim>\<open>NPY_DTYPE(descr)\<close> is \<^verbatim>\<open>Py_TYPE(descr)\<close>: it reads the type field of the object's
  header, so it reads through the pointer it is given.
\<close>

definition NPY_DTYPE :: "PyArray_Descr option \<Rightarrow> error + nat" where
  "NPY_DTYPE descr = (case descr of None \<Rightarrow> Inl Segfault | Some d \<Rightarrow> Inr (ob_type d))"

text \<open>
  Modelled from the spec: \<^verbatim>\<open>ensure_dtype_nbo\<close> (convert\_datatype.c) is not in this
  file.  The spec: ``canonicalize it (normalize to native byte order) -- this is always a
  no-cast, identity-preserving step'', and ``canonical means native byte order''.  An
  instance in native byte order is returned as it is; any other is replaced by a new
  descriptor, which the external constructor builds.
\<close>

definition ensure_dtype_nbo ::
  "externals \<Rightarrow> PyArray_Descr option \<Rightarrow> error + PyArray_Descr" where
  "ensure_dtype_nbo ext descr =
     (case descr of
        None \<Rightarrow> Inl Segfault
      | Some d \<Rightarrow> if byteorder_native d then Inr d else PyArray_DescrNewByteorder ext d)"

text \<open>
  Modelled from the spec: \<^verbatim>\<open>PyArray_MinCastSafety\<close> (convert\_datatype.c) is not in this
  file.  The spec: ``combining two levels yields the least safe (numerically largest) of
  the two, preserving the view flag only if both sides have it.  A level of
  unrepresentable is a distinct failure outcome, not a level.''
\<close>

definition PyArray_MinCastSafety :: "int \<Rightarrow> int \<Rightarrow> int" where
  "PyArray_MinCastSafety casting1 casting2 =
     (if casting1 < 0 \<or> casting2 < 0 then - 1
      else
        let view = casting1 AND casting2 AND NPY_CAST_IS_VIEW;
            c1 = casting1 AND NOT NPY_CAST_IS_VIEW;
            c2 = casting2 AND NOT NPY_CAST_IS_VIEW
        in if c1 > c2 then c1 OR view else c2 OR view)"

section \<open>The default descriptor resolution\<close>

text \<open>
  The first loop of \<^verbatim>\<open>default_resolve_descriptors\<close> (lines 64--80), over the slots
  \<open>is\<close> still to visit; the state is the output array and \<^verbatim>\<open>all_defined\<close>.
  A null result of a callee is the jump to \<^verbatim>\<open>fail\<close>, which returns -1 with the
  callee's error set.
\<close>

fun resolve_declared ::
  "externals \<Rightarrow> PyArray_DTypeMeta option list \<Rightarrow> PyArray_Descr option list \<Rightarrow> nat list \<Rightarrow>
     PyArray_Descr option list \<times> bool \<Rightarrow> error + (PyArray_Descr option list \<times> bool)" where
  "resolve_declared ext dts input_descrs [] st = Inr st"
| "resolve_declared ext dts input_descrs (i # is) (output_descrs, all_defined) =
     (case dts ! i of
        None \<Rightarrow> resolve_declared ext dts input_descrs is (output_descrs[i := None], False)
      | Some dtype \<Rightarrow>
          (case NPY_DTYPE (input_descrs ! i) of
             Inl e \<Rightarrow> Inl e
           | Inr cls \<Rightarrow>
               (case (if cls = dt_addr dtype then ensure_dtype_nbo ext (input_descrs ! i)
                      else default_descr dtype) of
                  Inl e \<Rightarrow> Inl e
                | Inr d \<Rightarrow>
                    resolve_declared ext dts input_descrs is
                      (output_descrs[i := Some d], all_defined))))"

text \<open>The loop of lines 95--100: the common DType of the inputs, left to right.\<close>

fun common_of_inputs ::
  "externals \<Rightarrow> PyArray_DTypeMeta option list \<Rightarrow> nat list \<Rightarrow> PyArray_DTypeMeta \<Rightarrow>
     error + PyArray_DTypeMeta" where
  "common_of_inputs ext dts [] common_dtype = Inr common_dtype"
| "common_of_inputs ext dts (i # is) common_dtype =
     (case dts ! i of
        None \<Rightarrow> Inl Segfault
      | Some dtype \<Rightarrow>
          (case PyArray_CommonDType ext common_dtype dtype of
             Inl e \<Rightarrow> Inl e
           | Inr c \<Rightarrow> common_of_inputs ext dts is c))"

text \<open>The loop of lines 101--114: the outputs the first loop left null.\<close>

fun resolve_unknown ::
  "externals \<Rightarrow> PyArray_DTypeMeta \<Rightarrow> PyArray_Descr option list \<Rightarrow> nat list \<Rightarrow>
     PyArray_Descr option list \<Rightarrow> error + PyArray_Descr option list" where
  "resolve_unknown ext common_dtype input_descrs [] output_descrs = Inr output_descrs"
| "resolve_unknown ext common_dtype input_descrs (i # is) output_descrs =
     (if output_descrs ! i \<noteq> None
      then resolve_unknown ext common_dtype input_descrs is output_descrs
      else
        (case NPY_DTYPE (input_descrs ! i) of
           Inl e \<Rightarrow> Inl e
         | Inr cls \<Rightarrow>
             (case (if cls = dt_addr common_dtype then ensure_dtype_nbo ext (input_descrs ! i)
                    else default_descr common_dtype) of
                Inl e \<Rightarrow> Inl e
              | Inr d \<Rightarrow>
                  resolve_unknown ext common_dtype input_descrs is (output_descrs[i := Some d]))))"

definition default_resolve_descriptors ::
  "externals \<Rightarrow> PyArrayMethodObject \<Rightarrow> PyArray_DTypeMeta option list \<Rightarrow>
     PyArray_Descr option list \<Rightarrow> error + (int \<times> PyArray_Descr option list)" where
  "default_resolve_descriptors ext m dts input_descrs =
     (let n_in = nat (nin m); nargs = nat (nin m + nout m) in
      case resolve_declared ext dts input_descrs [0..<nargs] (replicate nargs None, True) of
        Inl e \<Rightarrow> Inl e
      | Inr (output_descrs, all_defined) \<Rightarrow>
          if all_defined then Inr (casting m, output_descrs)
          else if nin m = 0 then
            Inl (PyErr PyExc_RuntimeError ''Invalid use of default resolver without inputs'')
          else
            (case dts ! 0 of
               None \<Rightarrow>
                 Inl (PyErr PyExc_RuntimeError ''Invalid use of default resolver without inputs'')
             | Some dtype0 \<Rightarrow>
                 (case common_of_inputs ext dts [1..<n_in] dtype0 of
                    Inl e \<Rightarrow> Inl e
                  | Inr common_dtype \<Rightarrow>
                      (case resolve_unknown ext common_dtype input_descrs [n_in..<nargs]
                              output_descrs of
                         Inl e \<Rightarrow> Inl e
                       | Inr out \<Rightarrow> Inr (casting m, out)))))"

section \<open>The default loop selector\<close>

fun is_contiguous_from :: "int list \<Rightarrow> PyArray_Descr list \<Rightarrow> nat list \<Rightarrow> int" where
  "is_contiguous_from strides descrs [] = 1"
| "is_contiguous_from strides descrs (i # is) =
     (if strides ! i \<noteq> elsize (descrs ! i) then 0
      else is_contiguous_from strides descrs is)"

definition is_contiguous :: "int list \<Rightarrow> PyArray_Descr list \<Rightarrow> int \<Rightarrow> int" where
  "is_contiguous strides descrs nargs = is_contiguous_from strides descrs [0..<nat nargs]"

text \<open>
  The result is the returned \<^verbatim>\<open>int\<close> with what the function stores through
  \<^verbatim>\<open>out_loop\<close>, \<^verbatim>\<open>out_transferdata\<close> and \<^verbatim>\<open>flags\<close>.  The conditions keep C's
  short-circuit: \<^verbatim>\<open>is_contiguous\<close> is not called when the contiguous loop is null.
\<close>

definition npy_default_get_strided_loop ::
  "PyArrayMethod_Context \<Rightarrow> int \<Rightarrow> int list \<Rightarrow> int \<times> fnptr \<times> nat option \<times> int" where
  "npy_default_get_strided_loop ctx aligned strides =
     (let descrs = descriptors ctx;
          m = ctx_method ctx;
          out_flags = flags m AND NPY_METH_RUNTIME_FLAGS;
          nargs = nin m + nout m
      in
        if aligned \<noteq> 0 then
          (if contiguous_loop m = NullFn \<or> is_contiguous strides descrs nargs = 0
           then (0, strided_loop m, None, out_flags)
           else (0, contiguous_loop m, None, out_flags))
        else
          (if unaligned_contiguous_loop m = NullFn \<or> is_contiguous strides descrs nargs = 0
           then (0, unaligned_strided_loop m, None, out_flags)
           else (0, unaligned_contiguous_loop m, None, out_flags)))"

section \<open>Building a method from a specification\<close>

text \<open>
  The loop of \<^verbatim>\<open>validate_spec\<close> over the DType array (lines 222--241).  The three
  checks are in the source's order.  \<^verbatim>\<open>PyObject_TypeCheck\<close> reads the type of the object
  it is given: when the slot is null and the first check let it pass (an output slot), that
  is a read through a null pointer.  The call of \<^verbatim>\<open>PyErr_Format\<close> for an abstract
  input (lines 236--238) has three conversions in its format and passes two arguments: it
  is undefined.  (The model keeps the head of each message only.)
\<close>

fun validate_dtypes :: "PyArrayMethod_Spec \<Rightarrow> nat list \<Rightarrow> error + unit" where
  "validate_dtypes spec [] = Inr ()"
| "validate_dtypes spec (i # is) =
     (if spec_dtypes spec ! i = None \<and> int i < spec_nin spec then
        Inl (PyErr PyExc_TypeError ''ArrayMethod must have well defined input DTypes.'')
      else
        (case spec_dtypes spec ! i of
           None \<Rightarrow> Inl Segfault
         | Some dtype \<Rightarrow>
             if \<not> is_DTypeMeta dtype then
               Inl (PyErr PyExc_TypeError ''ArrayMethod provided object is not a DType.'')
             else if is_abstract dtype \<and> int i < spec_nin spec then Inl Undefined
             else validate_dtypes spec is))"

definition validate_spec :: "PyArrayMethod_Spec \<Rightarrow> error + unit" where
  "validate_spec spec =
     (let nargs = int_add (spec_nin spec) (spec_nout spec);
          level = spec_casting spec AND NOT NPY_CAST_IS_VIEW
      in
        if spec_nin spec < 0 \<or> spec_nout spec < 0 \<or> nargs > NPY_MAXARGS then
          Inl (PyErr PyExc_ValueError
                 ''ArrayMethod inputs and outputs must be greater zero and not exceed 32.'')
        else if level \<noteq> NPY_NO_CASTING \<and> level \<noteq> NPY_EQUIV_CASTING \<and>
                level \<noteq> NPY_SAFE_CASTING \<and> level \<noteq> NPY_SAME_KIND_CASTING \<and>
                level \<noteq> NPY_UNSAFE_CASTING \<and> spec_casting spec \<noteq> - 1 then
          Inl (PyErr PyExc_TypeError ''ArrayMethod has invalid casting.'')
        else validate_dtypes spec [0..<nat nargs])"

text \<open>
  The loop of \<^verbatim>\<open>fill_arraymethod_from_slots\<close> over the slots (lines 272--303).  The
  array ends at the first entry whose slot number is 0; the list holds the entries before
  it (and may hold it).
\<close>

fun fill_slots ::
  "int \<Rightarrow> (int \<times> fnptr) list \<Rightarrow> PyArrayMethodObject \<Rightarrow> error + PyArrayMethodObject" where
  "fill_slots private [] m = Inr m"
| "fill_slots private ((slot, pfunc) # rest) m =
     (if slot = 0 then Inr m
      else if slot = NPY_METH_resolve_descriptors then
        fill_slots private rest (m\<lparr>resolve_descriptors := pfunc\<rparr>)
      else if slot = NPY_METH_get_loop \<and> private \<noteq> 0 then
        fill_slots private rest (m\<lparr>get_strided_loop := pfunc\<rparr>)
      else if slot = NPY_METH_strided_loop then
        fill_slots private rest (m\<lparr>strided_loop := pfunc\<rparr>)
      else if slot = NPY_METH_contiguous_loop then
        fill_slots private rest (m\<lparr>contiguous_loop := pfunc\<rparr>)
      else if slot = NPY_METH_unaligned_strided_loop then
        fill_slots private rest (m\<lparr>unaligned_strided_loop := pfunc\<rparr>)
      else if slot = NPY_METH_unaligned_contiguous_loop then
        fill_slots private rest (m\<lparr>unaligned_contiguous_loop := pfunc\<rparr>)
      else Inl (PyErr PyExc_RuntimeError ''invalid slot number to ArrayMethod''))"

text \<open>
  The loop of lines 314--338, run when the default resolver stays in place.  For a null
  output slot of a method with inputs neither inner branch returns, and line 331 then
  reads \<^verbatim>\<open>res->dtypes[i]->parametric\<close> through the null pointer.  For a null output
  slot of a method without inputs, the call of \<^verbatim>\<open>PyErr_Format\<close> (lines 324--327) has
  two conversions in its format and passes one argument: it is undefined.
\<close>

fun check_default_resolver_dtypes ::
  "PyBoundArrayMethodObject \<Rightarrow> nat list \<Rightarrow> error + unit" where
  "check_default_resolver_dtypes res [] = Inr ()"
| "check_default_resolver_dtypes res (i # is) =
     (case dtypes res ! i of
        None \<Rightarrow>
          if int i < nin (meth res) then
            Inl (PyErr PyExc_TypeError ''All input DTypes must be specified when using the default resolve_descriptors function.'')
          else if nin (meth res) = 0 then Inl Undefined
          else Inl Segfault
      | Some dtype \<Rightarrow>
          if int i \<ge> nin (meth res) \<and> is_parametric dtype then
            Inl (PyErr PyExc_TypeError ''must provide a resolve_descriptors function if any output DType is parametric.'')
          else check_default_resolver_dtypes res is)"

text \<open>The checks of the loop fields (lines 345--370), for the built-in selector.\<close>

definition check_loops :: "PyArrayMethodObject \<Rightarrow> error + PyArrayMethodObject" where
  "check_loops m =
     (if strided_loop m = NullFn then
        Inl (PyErr PyExc_TypeError ''Must provide a strided inner loop function.'')
      else
        let m = (if contiguous_loop m = NullFn then m\<lparr>contiguous_loop := strided_loop m\<rparr>
                 else m)
        in
          if unaligned_contiguous_loop m \<noteq> NullFn \<and> unaligned_strided_loop m = NullFn then
            Inl (PyErr PyExc_TypeError ''Must provide unaligned strided inner loop when providing a contiguous version.'')
          else if (unaligned_strided_loop m = NullFn) \<noteq>
                  (flags m AND NPY_METH_SUPPORTS_UNALIGNED = 0) then
            Inl (PyErr PyExc_TypeError ''Must provide unaligned strided inner loop when providing a contiguous version.'')
          else Inr m)"

definition fill_arraymethod_from_slots ::
  "PyBoundArrayMethodObject \<Rightarrow> PyArrayMethod_Spec \<Rightarrow> int \<Rightarrow> error + PyBoundArrayMethodObject" where
  "fill_arraymethod_from_slots res spec private =
     (let m0 = (meth res)\<lparr>get_strided_loop := Npy_default_get_strided_loop,
                           resolve_descriptors := Default_resolve_descriptors\<rparr>
      in
        case fill_slots private (spec_slots spec) m0 of
          Inl e \<Rightarrow> Inl e
        | Inr m1 \<Rightarrow>
            (case (if resolve_descriptors m1 = Default_resolve_descriptors then
                     (if spec_casting spec = - 1 then
                        Inl (PyErr PyExc_TypeError ''Cannot set casting to -1 (invalid) when not providing the default resolve_descriptors function.'')
                      else check_default_resolver_dtypes (res\<lparr>meth := m1\<rparr>)
                             [0..<nat (nin m1 + nout m1)])
                   else Inr ()) of
               Inl e \<Rightarrow> Inl e
             | Inr _ \<Rightarrow>
                 if get_strided_loop m1 \<noteq> Npy_default_get_strided_loop then
                   Inr (res\<lparr>meth := m1\<rparr>)
                 else
                   (case check_loops m1 of
                      Inl e \<Rightarrow> Inl e
                    | Inr m2 \<Rightarrow> Inr (res\<lparr>meth := m2\<rparr>))))"

text \<open>
  \<^verbatim>\<open>PyArrayMethod_FromSpec_int\<close>: the method object starts zeroed (the
  \<^verbatim>\<open>memset\<close> of line 424), so every pointer field is null before the slots are read;
  lines 427--430 copy the arities, the flags and the casting level.  \<^verbatim>\<open>nargs\<close> is
  the 32-bit sum of the arities (line 390).  When that sum has wrapped around it is
  negative, \<^verbatim>\<open>validate_spec\<close> lets it pass (line 200), and
  \<^verbatim>\<open>PyMem_Malloc\<close> is asked for a negative count of pointers, that is for more than
  the address space holds: it fails, and the constructor returns with
  \<^verbatim>\<open>PyErr_NoMemory\<close> (lines 407--412).
\<close>

definition new_method :: "PyArrayMethod_Spec \<Rightarrow> PyArrayMethodObject" where
  "new_method spec =
     \<lparr>name = [], nin = spec_nin spec, nout = spec_nout spec,
      casting = spec_casting spec, flags = spec_flags spec,
      resolve_descriptors = NullFn, get_strided_loop = NullFn,
      strided_loop = NullFn, contiguous_loop = NullFn,
      unaligned_strided_loop = NullFn, unaligned_contiguous_loop = NullFn\<rparr>"

definition PyArrayMethod_FromSpec_int ::
  "PyArrayMethod_Spec \<Rightarrow> int \<Rightarrow> error + PyBoundArrayMethodObject" where
  "PyArrayMethod_FromSpec_int spec0 private =
     (let nargs = int_add (spec_nin spec0) (spec_nout spec0);
          spec = (if spec_name spec0 = None then spec0\<lparr>spec_name := Some ''<unknown>''\<rparr>
                  else spec0)
      in
        case validate_spec spec of
          Inl e \<Rightarrow> Inl e
        | Inr _ \<Rightarrow>
            if nargs < 0 then Inl (PyErr PyExc_MemoryError [])
            else
              let res = \<lparr>dtypes = take (nat nargs) (spec_dtypes spec), meth = new_method spec\<rparr>
              in
                case fill_arraymethod_from_slots res spec private of
                  Inl e \<Rightarrow> Inl e
                | Inr res' \<Rightarrow>
                    Inr (res'\<lparr>meth := (meth res')
                           \<lparr>name := (case spec_name spec of None \<Rightarrow> [] | Some n \<Rightarrow> n)\<rparr>\<rparr>))"

text \<open>
  The method as lines 262--303 leave it: the defaults set, then the slots of the
  specification read.
\<close>

definition slots_read :: "PyArrayMethod_Spec \<Rightarrow> int \<Rightarrow> error + PyArrayMethodObject" where
  "slots_read spec private =
     fill_slots private (spec_slots spec)
       ((new_method spec)\<lparr>get_strided_loop := Npy_default_get_strided_loop,
                           resolve_descriptors := Default_resolve_descriptors\<rparr>)"

section \<open>The entry points of a bound method\<close>

text \<open>
  The objects a caller passes from Python: \<^verbatim>\<open>None\<close>, a descriptor instance, an array
  whose type is exactly \<^verbatim>\<open>ndarray\<close>, an exact tuple, or any other object.  Of an array
  the model keeps what \<^verbatim>\<open>_simple_strided_call\<close> reads: \<^verbatim>\<open>PyArray_BYTES\<close>,
  \<^verbatim>\<open>PyArray_NDIM\<close>, the dimensions (\<^verbatim>\<open>PyArray_SIZE\<close> is their product), the
  strides, the descriptor, and the two flags behind \<^verbatim>\<open>PyArray_FailUnlessWriteable\<close>
  and \<^verbatim>\<open>PyArray_ISALIGNED\<close>.
\<close>

record PyArrayObject =
  arr_data :: int
  arr_nd :: int
  arr_dimensions :: "int list"
  arr_strides :: "int list"
  arr_descr :: PyArray_Descr
  arr_writeable :: bool
  arr_aligned :: bool

datatype PyObject =
    Py_None
  | Py_Descr PyArray_Descr
  | Py_Array PyArrayObject
  | Py_Tuple "PyObject list"
  | Py_Other nat

definition PyArray_SIZE :: "PyArrayObject \<Rightarrow> int" where
  "PyArray_SIZE arr = prod_list (arr_dimensions arr)"

text \<open>
  A call through a method's pointer: the built-in function when the pointer is its
  address, the caller's function for a caller's address; a call through a null pointer,
  or through the address of a function of another type, is undefined in C.
\<close>

definition call_resolve_descriptors ::
  "externals \<Rightarrow> PyArrayMethodObject \<Rightarrow> PyArray_DTypeMeta option list \<Rightarrow>
     PyArray_Descr option list \<Rightarrow> error + (int \<times> PyArray_Descr option list)" where
  "call_resolve_descriptors ext m dts given_descrs =
     (case resolve_descriptors m of
        Default_resolve_descriptors \<Rightarrow> default_resolve_descriptors ext m dts given_descrs
      | UserFn k \<Rightarrow> user_resolve_descriptors ext k m dts given_descrs
      | _ \<Rightarrow> Inl Segfault)"

definition call_get_strided_loop ::
  "externals \<Rightarrow> PyArrayMethodObject \<Rightarrow> PyArrayMethod_Context \<Rightarrow> int \<Rightarrow> int list \<Rightarrow>
     error + (fnptr \<times> nat option \<times> int)" where
  "call_get_strided_loop ext m ctx aligned strides =
     (case get_strided_loop m of
        Npy_default_get_strided_loop \<Rightarrow>
          (case npy_default_get_strided_loop ctx aligned strides of
             (r, loop, loop_data, fl) \<Rightarrow>
               if r < 0 then Inl (ExternalError 0) else Inr (loop, loop_data, fl))
      | UserFn k \<Rightarrow> user_get_strided_loop ext k ctx aligned strides
      | _ \<Rightarrow> Inl Segfault)"

definition call_strided_loop ::
  "externals \<Rightarrow> fnptr \<Rightarrow> PyArrayMethod_Context \<Rightarrow> int list \<Rightarrow> int \<Rightarrow> int list \<Rightarrow>
     nat option \<Rightarrow> error + int" where
  "call_strided_loop ext loop ctx args n strides loop_data =
     (case loop of
        UserFn k \<Rightarrow> Inr (user_strided_loop ext k ctx args n strides loop_data)
      | _ \<Rightarrow> Inl Segfault)"

subsection \<open>\<^verbatim>\<open>_resolve_descriptors\<close>\<close>

text \<open>The loop of lines 532--559 over the entries of the tuple.\<close>

fun given_descrs_from ::
  "PyBoundArrayMethodObject \<Rightarrow> PyObject list \<Rightarrow> nat list \<Rightarrow> PyArray_Descr option list \<Rightarrow>
     error + PyArray_Descr option list" where
  "given_descrs_from self items [] given_descrs = Inr given_descrs"
| "given_descrs_from self items (i # is) given_descrs =
     (case items ! i of
        Py_None \<Rightarrow>
          if int i < nin (meth self) then
            Inl (PyErr PyExc_TypeError ''only output dtypes may be omitted (set to None).'')
          else given_descrs_from self items is (given_descrs[i := None])
      | Py_Descr d \<Rightarrow>
          if Some (ob_type d) \<noteq> map_option dt_addr (dtypes self ! i) then
            Inl (PyErr PyExc_TypeError ''input dtype was not an exact instance of the bound DType class.'')
          else given_descrs_from self items is (given_descrs[i := Some d])
      | _ \<Rightarrow>
          Inl (PyErr PyExc_TypeError ''dtype tuple can only contain dtype instances or None.''))"

text \<open>
  The loop of lines 586--592; it stops at the first parametric DType, and reads
  \<^verbatim>\<open>self->dtypes[i]->parametric\<close> through each pointer before that.
\<close>

fun any_parametric :: "PyArray_DTypeMeta option list \<Rightarrow> nat list \<Rightarrow> error + int" where
  "any_parametric dts [] = Inr 0"
| "any_parametric dts (i # is) =
     (case dts ! i of
        None \<Rightarrow> Inl Segfault
      | Some dtype \<Rightarrow> if is_parametric dtype then Inr 1 else any_parametric dts is)"

text \<open>
  The result is the pair the function builds: the level and the tuple of descriptors, or
  the level and \<^verbatim>\<open>None\<close> when the resolver returns a negative level with no error set.
\<close>

definition boundarraymethod__resolve_descripors ::
  "externals \<Rightarrow> PyBoundArrayMethodObject \<Rightarrow> PyObject \<Rightarrow>
     error + (int \<times> PyArray_Descr option list option)" where
  "boundarraymethod__resolve_descripors ext self descr_tuple =
     (let nargs = nat (nin (meth self) + nout (meth self)) in
      case descr_tuple of
        Py_Tuple items \<Rightarrow>
          if int (length items) \<noteq> nin (meth self) + nout (meth self) then
            Inl (PyErr PyExc_TypeError ''_resolve_descriptors() takes exactly one tuple with as many elements as the method takes arguments.'')
          else
            (case given_descrs_from self items [0..<nargs] (replicate nargs None) of
               Inl e \<Rightarrow> Inl e
             | Inr given_descrs \<Rightarrow>
                 (case call_resolve_descriptors ext (meth self) (dtypes self) given_descrs of
                    Inl e \<Rightarrow> Inl e
                  | Inr (level, loop_descrs) \<Rightarrow>
                      if level < 0 then Inr (level, None)
                      else
                        (case any_parametric (dtypes self) [0..<nargs] of
                           Inl e \<Rightarrow> Inl e
                         | Inr par \<Rightarrow>
                             if casting (meth self) \<noteq> - 1 then
                               (let cast = level AND NOT NPY_CAST_IS_VIEW in
                                if casting (meth self) \<noteq>
                                     PyArray_MinCastSafety cast (casting (meth self)) then
                                  Inl (PyErr PyExc_RuntimeError ''resolve_descriptors cast level did not match stored one.'')
                                else if par = 0 \<and> cast \<noteq> casting (meth self) \<and>
                                        casting (meth self) \<noteq> NPY_EQUIV_CASTING then
                                  Inl (PyErr PyExc_RuntimeError ''resolve_descriptors cast level changed even though the cast is non-parametric'')
                                else Inr (level, Some loop_descrs))
                             else Inr (level, Some loop_descrs))))
      | _ \<Rightarrow>
          Inl (PyErr PyExc_TypeError ''_resolve_descriptors() takes exactly one tuple with as many elements as the method takes arguments.''))"

subsection \<open>\<^verbatim>\<open>_simple_strided_call\<close>\<close>

text \<open>
  The loop of lines 653--697.  The state is what the loop has stored so far:
  \<^verbatim>\<open>descrs\<close>, \<^verbatim>\<open>args\<close> and \<^verbatim>\<open>strides\<close> (entry \<open>i\<close> is written in round
  \<open>i\<close>, so each list grows by one entry a round), \<^verbatim>\<open>length\<close> and
  \<^verbatim>\<open>aligned\<close>.  The writability check stands under \<^verbatim>\<open>if (i >= nout)\<close>, as
  line 686 has it.
\<close>

fun check_arrays ::
  "PyBoundArrayMethodObject \<Rightarrow> PyObject list \<Rightarrow> nat list \<Rightarrow>
     PyArray_Descr list \<times> int list \<times> int list \<times> int \<times> int \<Rightarrow>
     error + (PyArray_Descr list \<times> int list \<times> int list \<times> int \<times> int)" where
  "check_arrays self items [] st = Inr st"
| "check_arrays self items (i # is) (descrs, args, strides, len, aligned) =
     (case items ! i of
        Py_Array arr \<Rightarrow>
          if Some (ob_type (arr_descr arr)) \<noteq> map_option dt_addr (dtypes self ! i) then
            Inl (PyErr PyExc_TypeError ''input dtype was not an exact instance of the bound DType class.'')
          else if arr_nd arr \<noteq> 1 then
            Inl (PyErr PyExc_ValueError ''All arrays must be one dimensional.'')
          else if i \<noteq> 0 \<and> PyArray_SIZE arr \<noteq> len then
            Inl (PyErr PyExc_ValueError ''All arrays must have the same length.'')
          else if int i \<ge> nout (meth self) \<and> \<not> arr_writeable arr then
            Inl (PyErr PyExc_ValueError ''_simple_strided_call() output is read-only'')
          else
            check_arrays self items is
              (descrs @ [arr_descr arr], args @ [arr_data arr], strides @ [arr_strides arr ! 0],
               (if i = 0 then PyArray_SIZE arr else len),
               (if aligned \<noteq> 0 \<and> arr_aligned arr then 1 else 0))
      | _ \<Rightarrow> Inl (PyErr PyExc_TypeError ''All inputs must be NumPy arrays.''))"

text \<open>
  The loop of lines 717--721: pointer comparison of each input descriptor with the
  resolved one; \<^verbatim>\<open>Py_DECREF\<close> writes through the resolved pointer.
\<close>

fun dtypes_were_adapted ::
  "PyArray_Descr list \<Rightarrow> PyArray_Descr option list \<Rightarrow> nat list \<Rightarrow> int \<Rightarrow> error + int" where
  "dtypes_were_adapted descrs out_descrs [] adapted = Inr adapted"
| "dtypes_were_adapted descrs out_descrs (i # is) adapted =
     (case out_descrs ! i of
        None \<Rightarrow> Inl Segfault
      | Some od \<Rightarrow>
          dtypes_were_adapted descrs out_descrs is
            (if adapted \<noteq> 0 \<or> ob_addr (descrs ! i) \<noteq> ob_addr od then 1 else 0))"

definition boundarraymethod__simple_strided_call ::
  "externals \<Rightarrow> PyBoundArrayMethodObject \<Rightarrow> PyObject \<Rightarrow> error + unit" where
  "boundarraymethod__simple_strided_call ext self arr_tuple =
     (let m = meth self; nargs = nat (nin m + nout m) in
      case arr_tuple of
        Py_Tuple items \<Rightarrow>
          if int (length items) \<noteq> nin m + nout m then
            Inl (PyErr PyExc_TypeError ''_simple_strided_call() takes exactly one tuple with as many arrays as the method takes arguments.'')
          else
            (case check_arrays self items [0..<nargs] ([], [], [], - 1, 1) of
               Inl e \<Rightarrow> Inl e
             | Inr (descrs, args, strides, len, aligned) \<Rightarrow>
                 if aligned = 0 \<and> flags m AND NPY_METH_SUPPORTS_UNALIGNED = 0 then
                   Inl (PyErr PyExc_ValueError ''method does not support unaligned input.'')
                 else
                   (case call_resolve_descriptors ext m (dtypes self) (map Some descrs) of
                      Inl Segfault \<Rightarrow> Inl Segfault
                    | Inl Undefined \<Rightarrow> Inl Undefined
                    | Inl _ \<Rightarrow>
                        Inl (PyErr PyExc_TypeError ''cannot perform method call with the given dtypes.'')
                    | Inr (level, out_descrs) \<Rightarrow>
                        if level < 0 then
                          Inl (PyErr PyExc_TypeError ''cannot perform method call with the given dtypes.'')
                        else
                          (case dtypes_were_adapted descrs out_descrs [0..<nargs] 0 of
                             Inl e \<Rightarrow> Inl e
                           | Inr adapted \<Rightarrow>
                               if adapted \<noteq> 0 then
                                 Inl (PyErr PyExc_TypeError ''_simple_strided_call(): requires dtypes to not require a cast'')
                               else
                                 (let ctx = \<lparr>caller = None, ctx_method = m, descriptors = descrs\<rparr> in
                                  case call_get_strided_loop ext m ctx aligned strides of
                                    Inl e \<Rightarrow> Inl e
                                  | Inr (loop, loop_data, fl) \<Rightarrow>
                                      (case call_strided_loop ext loop ctx args len strides loop_data of
                                         Inl e \<Rightarrow> Inl e
                                       | Inr r \<Rightarrow> if r < 0 then Inl (LoopFailed r) else Inr ())))))
      | _ \<Rightarrow>
          Inl (PyErr PyExc_TypeError ''_simple_strided_call() takes exactly one tuple with as many arrays as the method takes arguments.''))"

section \<open>The masked strided loop\<close>

text \<open>
  Modelled from the spec: \<^verbatim>\<open>npy_memchr\<close> (common.h) is not in this file.  The spec:
  ``scan the mask to find the next run of false entries (skip, advancing all pointers and
  mask position by that run's length), then scan for the following run of true entries''.
  The call \<^verbatim>\<open>npy_memchr(p, needle, stride, size, &n, invert)\<close> walks from \<open>p\<close> in
  steps of \<open>stride\<close> over at most \<open>sz\<close> bytes (the source's \<^verbatim>\<open>size\<close>): with \<open>invert\<close> it passes the bytes equal
  to \<open>needle\<close>, without it those different from \<open>needle\<close> (a byte is passed when
  its equality with \<open>needle\<close> agrees with \<open>invert\<close>); it returns where it stopped and
  stores how many bytes it passed.  \<open>rd\<close> reads a byte of memory.
\<close>

function npy_memchr_scan ::
  "(int \<Rightarrow> 8 word) \<Rightarrow> 8 word \<Rightarrow> int \<Rightarrow> int \<Rightarrow> int \<Rightarrow> int \<Rightarrow> int \<Rightarrow> int \<times> int" where
  "npy_memchr_scan rd needle stride sz invert p subloopsize =
     (if subloopsize < sz \<and> (rd p = needle) = (invert \<noteq> 0)
      then npy_memchr_scan rd needle stride sz invert (p + stride) (subloopsize + 1)
      else (p, subloopsize))"
  by pat_completeness auto
termination
  by (relation "measure (\<lambda>(rd, needle, stride, sz, invert, p, subloopsize).
        nat (sz - subloopsize))") auto

declare npy_memchr_scan.simps [simp del]

definition npy_memchr ::
  "(int \<Rightarrow> 8 word) \<Rightarrow> int \<Rightarrow> 8 word \<Rightarrow> int \<Rightarrow> int \<Rightarrow> int \<Rightarrow> int \<times> int" where
  "npy_memchr rd haystack needle stride sz invert =
     npy_memchr_scan rd needle stride sz invert haystack 0"

text \<open>\<^verbatim>\<open>for (i < nargs) dataptrs[i] += subloopsize * strides[i]\<close>.\<close>

definition advance :: "int list \<Rightarrow> int list \<Rightarrow> int \<Rightarrow> nat \<Rightarrow> int list" where
  "advance dataptrs strides subloopsize nargs =
     map (\<lambda>i. dataptrs ! i + subloopsize * strides ! i) [0..<nargs]"

text \<open>
  The \<^verbatim>\<open>do ... while (N > 0)\<close> loop of \<^verbatim>\<open>generic_masked_strided_loop\<close> (lines
  808--829).  \<open>s\<close> is the state the inner loop works on (the buffers, and whatever else it
  changes); \<open>mem s\<close> reads a byte of it, and \<open>unmasked_stridedloop\<close> is the wrapped
  loop, called with the working pointers, the length of the run and the strides (its
  context and auxiliary data are fixed for the call and kept inside the function).
\<close>

function masked_runs ::
  "('s \<Rightarrow> int \<Rightarrow> 8 word) \<Rightarrow> (int list \<Rightarrow> int \<Rightarrow> int list \<Rightarrow> 's \<Rightarrow> int \<times> 's) \<Rightarrow> nat \<Rightarrow> int list \<Rightarrow>
     int \<Rightarrow> int list \<Rightarrow> int \<Rightarrow> int \<Rightarrow> 's \<Rightarrow> int \<times> 's" where
  "masked_runs mem unmasked_stridedloop nargs strides mask_stride dataptrs mask_ptr N s =
     (case npy_memchr (mem s) mask_ptr 0 mask_stride N 1 of
        (mask1, skip) \<Rightarrow>
          let dataptrs1 = advance dataptrs strides skip nargs;
              N1 = N - skip
          in
            case npy_memchr (mem s) mask1 0 mask_stride N1 0 of
              (mask2, run) \<Rightarrow>
                (case unmasked_stridedloop dataptrs1 run strides s of
                   (res, s') \<Rightarrow>
                     if res \<noteq> 0 then (res, s')
                     else
                       let dataptrs2 = advance dataptrs1 strides run nargs;
                           N2 = N1 - run
                       in
                         if N2 > 0 then
                           masked_runs mem unmasked_stridedloop nargs strides mask_stride dataptrs2 mask2 N2 s'
                         else (0, s')))"
  by pat_completeness auto
termination
proof (relation "measure (\<lambda>(mem, unmasked_stridedloop, nargs, strides, mask_stride, dataptrs, mask_ptr, N, s). nat N)",
    goal_cases)
  case 1
  show ?case by simp
next
  case (2 mem unmasked_stridedloop nargs strides mask_stride dataptrs mask_ptr N s mask1 skip
      dataptrs1 N1 mask2 run res s' dataptrs2 N2)
  note a1 = 2(1) and n1 = 2(3) and a2 = 2(4) and n2 = 2(8) and pos = 2(9)
  have mono: "npy_memchr_scan rd needle stride sz invert p c = (p', c') \<Longrightarrow> c \<le> c'"
    for rd needle stride sz invert p c p' c'
  proof (induction rd needle stride sz invert p c rule: npy_memchr_scan.induct)
    case (1 rd needle stride sz invert p c)
    show ?case
    proof (cases "c < sz \<and> ((rd p = needle) = (invert \<noteq> 0))")
      case True
      with "1.prems" have "npy_memchr_scan rd needle stride sz invert (p + stride) (c + 1) = (p', c')"
        by (subst (asm) npy_memchr_scan.simps) simp
      with "1.IH" True have "c + 1 \<le> c'" by blast
      then show ?thesis by simp
    next
      case False
      with "1.prems" have "(p, c) = (p', c')"
        by (subst (asm) npy_memchr_scan.simps) simp
      then show ?thesis by simp
    qed
  qed
  have first: "npy_memchr rd p needle stride sz invert = (p', 0) \<Longrightarrow> 0 < sz \<Longrightarrow>
      p' = p \<and> \<not> ((rd p = needle) = (invert \<noteq> 0))"
    for rd needle stride sz invert p p'
  proof -
    assume r: "npy_memchr rd p needle stride sz invert = (p', 0)" and sz: "0 < sz"
    show ?thesis
    proof (cases "(rd p = needle) = (invert \<noteq> 0)")
      case True
      with r sz have "npy_memchr_scan rd needle stride sz invert (p + stride) 1 = (p', 0)"
        unfolding npy_memchr_def by (subst (asm) npy_memchr_scan.simps) simp
      from mono[OF this] show ?thesis by simp
    next
      case False
      with r have "(p, 0) = (p', 0)"
        unfolding npy_memchr_def by (subst (asm) npy_memchr_scan.simps) simp
      with False show ?thesis by simp
    qed
  qed
  have skip0: "0 \<le> skip" using a1 mono[of "mem s" 0 mask_stride N 1 mask_ptr 0 mask1 skip]
    by (simp add: npy_memchr_def)
  have run0: "0 \<le> run" using a2 mono[of "mem s" 0 mask_stride N1 0 mask1 0 mask2 run]
    by (simp add: npy_memchr_def)
  have "1 \<le> skip + run"
  proof (cases "skip = 0")
    case False
    then show ?thesis using skip0 run0 by linarith
  next
    case True
    have Npos: "0 < N" using pos n1 n2 skip0 run0 by linarith
    from a1 True have "npy_memchr (mem s) mask_ptr 0 mask_stride N 1 = (mask1, 0)" by simp
    from first[OF this Npos] have m: "mask1 = mask_ptr" "mem s mask_ptr \<noteq> 0" by simp_all
    have "run \<noteq> 0"
    proof
      assume "run = 0"
      with a2 have "npy_memchr (mem s) mask1 0 mask_stride N1 0 = (mask2, 0)" by simp
      from first[OF this] Npos n1 True m show False by simp
    qed
    then show ?thesis using skip0 run0 by linarith
  qed
  then show ?case
    using pos n1 n2 by simp
qed

declare masked_runs.simps [simp del]

text \<open>
  \<^verbatim>\<open>generic_masked_strided_loop\<close>: the first \<open>nargs\<close> pointers are copied to the
  working array, the mask and its stride are entry \<open>nargs\<close> of \<^verbatim>\<open>data\<close> and
  \<^verbatim>\<open>strides\<close>, and \<open>N\<close> is \<^verbatim>\<open>dimensions[0]\<close>.
\<close>

definition generic_masked_strided_loop ::
  "('s \<Rightarrow> int \<Rightarrow> 8 word) \<Rightarrow> (int list \<Rightarrow> int \<Rightarrow> int list \<Rightarrow> 's \<Rightarrow> int \<times> 's) \<Rightarrow> nat \<Rightarrow>
     int list \<Rightarrow> int list \<Rightarrow> int list \<Rightarrow> 's \<Rightarrow> int \<times> 's" where
  "generic_masked_strided_loop mem unmasked_stridedloop nargs data dimensions strides s =
     masked_runs mem unmasked_stridedloop nargs strides (strides ! nargs)
       (take nargs data) (data ! nargs) (dimensions ! 0) s"

section \<open>Concrete inputs\<close>

text \<open>
  A concrete, non-parametric DType class \<open>A\<close> at address 1 and its canonical instance
  (native byte order, 8 bytes) at address 100, which is also the class's default instance.
\<close>

definition ex_a :: PyArray_Descr where
  "ex_a = \<lparr>ob_addr = 100, ob_type = 1, byteorder_native = True, elsize = 8\<rparr>"

definition ex_A :: PyArray_DTypeMeta where
  "ex_A = \<lparr>dt_addr = 1, is_DTypeMeta = True, is_abstract = False, is_parametric = False,
            default_descr = Inr ex_a\<rparr>"

text \<open>
  A method of one input and one output with the built-in resolver and selector, an
  unaligned strided loop and no unaligned contiguous loop.
\<close>

definition ex_method :: PyArrayMethodObject where
  "ex_method =
     \<lparr>name = ''ex'', nin = 1, nout = 1, casting = 3, flags = 8,
      resolve_descriptors = Default_resolve_descriptors,
      get_strided_loop = Npy_default_get_strided_loop,
      strided_loop = UserFn 3, contiguous_loop = UserFn 3,
      unaligned_strided_loop = UserFn 5, unaligned_contiguous_loop = NullFn\<rparr>"

definition ex_ctx :: PyArrayMethod_Context where
  "ex_ctx = \<lparr>caller = None, ctx_method = ex_method, descriptors = [ex_a, ex_a]\<rparr>"

text \<open>
  A specification of one input and one output of class \<open>A\<close> that registers a strided
  and an unaligned strided loop and declares support for unaligned buffers, and the bound
  method built from it.
\<close>

definition ex_spec :: PyArrayMethod_Spec where
  "ex_spec =
     \<lparr>spec_name = Some ''ex'', spec_nin = 1, spec_nout = 1, spec_casting = 3, spec_flags = 8,
      spec_dtypes = [Some ex_A, Some ex_A],
      spec_slots = [(3, UserFn 3), (5, UserFn 5), (0, NullFn)]\<rparr>"

definition ex_bound :: PyBoundArrayMethodObject where
  "ex_bound = \<lparr>dtypes = [Some ex_A, Some ex_A], meth = ex_method\<rparr>"

text \<open>
  The same specification without the unaligned strided loop and without the
  supports-unaligned flag, and the bound method built from it.
\<close>

definition ex_spec_aligned :: PyArrayMethod_Spec where
  "ex_spec_aligned =
     \<lparr>spec_name = Some ''ex'', spec_nin = 1, spec_nout = 1, spec_casting = 3, spec_flags = 0,
      spec_dtypes = [Some ex_A, Some ex_A],
      spec_slots = [(3, UserFn 3), (0, NullFn)]\<rparr>"

definition ex_bound_aligned :: PyBoundArrayMethodObject where
  "ex_bound_aligned =
     \<lparr>dtypes = [Some ex_A, Some ex_A],
      meth = ex_method\<lparr>flags := 0, unaligned_strided_loop := NullFn\<rparr>\<rparr>"

text \<open>
  External collaborators for the concrete inputs: two classes have a common class when
  they are the same class; a descriptor in native byte order is built at a new address;
  the caller's resolver at address \<open>k\<close> returns the level \<open>k\<close> and the given descriptors,
  the caller's selector the strided loop, and every inner loop returns 0.
\<close>

definition ex_ext :: externals where
  "ex_ext =
     \<lparr>PyArray_CommonDType =
        (\<lambda>a b. if dt_addr a = dt_addr b then Inr a else Inl (ExternalError 1)),
      PyArray_DescrNewByteorder =
        (\<lambda>d. Inr (d\<lparr>ob_addr := ob_addr d + 1000, byteorder_native := True\<rparr>)),
      user_resolve_descriptors = (\<lambda>k m dts ds. Inr (int k, ds)),
      user_get_strided_loop = (\<lambda>k c al st. Inr (strided_loop (ctx_method c), None, 0)),
      user_strided_loop = (\<lambda>k c args n st aux. 0)\<rparr>"

text \<open>
  The scenario of two inputs of class \<open>A\<close> and one output whose class is null, declared
  same-kind: the specification, and the method object with these fields.
\<close>

definition ex_spec_2_1 :: PyArrayMethod_Spec where
  "ex_spec_2_1 =
     \<lparr>spec_name = Some ''ex21'', spec_nin = 2, spec_nout = 1, spec_casting = 3, spec_flags = 0,
      spec_dtypes = [Some ex_A, Some ex_A, None],
      spec_slots = [(3, UserFn 3), (0, NullFn)]\<rparr>"

definition ex_method_2_1 :: PyArrayMethodObject where
  "ex_method_2_1 =
     \<lparr>name = ''ex21'', nin = 2, nout = 1, casting = 3, flags = 0,
      resolve_descriptors = Default_resolve_descriptors,
      get_strided_loop = Npy_default_get_strided_loop,
      strided_loop = UserFn 3, contiguous_loop = UserFn 3,
      unaligned_strided_loop = NullFn, unaligned_contiguous_loop = NullFn\<rparr>"

text \<open>
  A one-dimensional array of five elements of class \<open>A\<close>, aligned and contiguous, at a
  given address, writable or read-only.
\<close>

definition ex_arr :: "int \<Rightarrow> bool \<Rightarrow> PyArrayObject" where
  "ex_arr address writeable =
     \<lparr>arr_data = address, arr_nd = 1, arr_dimensions = [5], arr_strides = [8],
      arr_descr = ex_a, arr_writeable = writeable, arr_aligned = True\<rparr>"

text \<open>
  Bound methods over class \<open>A\<close> with the built-in resolver and selector: one input and
  two outputs, and two inputs and one output.
\<close>

definition ex_bound_1_2 :: PyBoundArrayMethodObject where
  "ex_bound_1_2 =
     \<lparr>dtypes = [Some ex_A, Some ex_A, Some ex_A], meth = ex_method\<lparr>nin := 1, nout := 2\<rparr>\<rparr>"

definition ex_bound_2_1 :: PyBoundArrayMethodObject where
  "ex_bound_2_1 =
     \<lparr>dtypes = [Some ex_A, Some ex_A, Some ex_A], meth = ex_method\<lparr>nin := 2, nout := 1\<rparr>\<rparr>"

text \<open>
  Bound methods over class \<open>A\<close> whose resolver is the caller's function at address 0,
  which returns the level no-casting: one declared equivalent, one declared safe.
\<close>

definition ex_bound_equiv :: PyBoundArrayMethodObject where
  "ex_bound_equiv =
     \<lparr>dtypes = [Some ex_A, Some ex_A],
      meth = ex_method\<lparr>casting := 1, resolve_descriptors := UserFn 0\<rparr>\<rparr>"

definition ex_bound_safe :: PyBoundArrayMethodObject where
  "ex_bound_safe =
     \<lparr>dtypes = [Some ex_A, Some ex_A],
      meth = ex_method\<lparr>casting := 2, resolve_descriptors := UserFn 0\<rparr>\<rparr>"

text \<open>
  An inner loop that touches no buffer and only records each call it gets: the working
  pointers and the number of elements.  Its state is the list of the calls so far.
\<close>

definition count_loop ::
  "int list \<Rightarrow> int \<Rightarrow> int list \<Rightarrow> (int list \<times> int) list \<Rightarrow> int \<times> (int list \<times> int) list" where
  "count_loop dataptrs n strides calls = (0, calls @ [(dataptrs, n)])"

text \<open>
  A memory whose bytes at 1000, 1001 and 1004 are 1 and whose other bytes are 0: read
  from address 1000 with stride 1 it holds the mask true, true, false, false, true.
\<close>

definition ex_mask_mem :: "int \<Rightarrow> 8 word" where
  "ex_mask_mem p = (if p = 1000 \<or> p = 1001 \<or> p = 1004 then 1 else 0)"

section \<open>The default loop selector: properties\<close>

text \<open>
  C7.  For every method whose unaligned strided loop is present and whose unaligned
  contiguous loop is absent, the default selector, called with the aligned assertion false
  and strides that are all contiguous (each stride the byte size of the resolved instance),
  returns 0 and stores the unaligned strided loop, null auxiliary data and the method's
  runtime flags.
\<close>

theorem default_selector_unaligned_fallback:
  assumes "unaligned_strided_loop (ctx_method ctx) \<noteq> NullFn"
    and "unaligned_contiguous_loop (ctx_method ctx) = NullFn"
    and "\<forall>i < nat (nin (ctx_method ctx) + nout (ctx_method ctx)).
           strides ! i = elsize (descriptors ctx ! i)"
  shows "npy_default_get_strided_loop ctx 0 strides =
           (0, unaligned_strided_loop (ctx_method ctx), None,
            flags (ctx_method ctx) AND NPY_METH_RUNTIME_FLAGS)"
  using assms(2) by (simp add: npy_default_get_strided_loop_def Let_def)

theorem default_selector_unaligned_fallback_witness:
  "npy_default_get_strided_loop ex_ctx 0 [8, 8] = (0, UserFn 5, None, 0)"
proof -
  have h1: "unaligned_strided_loop (ctx_method ex_ctx) \<noteq> NullFn"
    by (simp add: ex_ctx_def ex_method_def)
  have h2: "unaligned_contiguous_loop (ctx_method ex_ctx) = NullFn"
    by (simp add: ex_ctx_def ex_method_def)
  have h3: "\<forall>i < nat (nin (ctx_method ex_ctx) + nout (ctx_method ex_ctx)).
              [8, 8] ! i = elsize (descriptors ex_ctx ! i)"
    by (simp add: ex_ctx_def ex_method_def ex_a_def nth_Cons')
  have fl: "flags (ctx_method ex_ctx) AND NPY_METH_RUNTIME_FLAGS = 0"
    by (simp add: ex_ctx_def ex_method_def NPY_METH_RUNTIME_FLAGS_def
        NPY_METH_REQUIRES_PYAPI_def NPY_METH_NO_FLOATINGPOINT_ERRORS_def)
  from default_selector_unaligned_fallback[OF h1 h2 h3] fl show ?thesis
    by (simp add: ex_ctx_def ex_method_def)
qed

section \<open>Construction: properties\<close>

lemma fill_slots_keeps:
  "fill_slots priv slots m = Inr m' \<Longrightarrow>
     nin m' = nin m \<and> nout m' = nout m \<and> casting m' = casting m \<and> flags m' = flags m \<and>
     name m' = name m"
  by (induction priv slots m rule: fill_slots.induct) (auto split: if_splits)

lemma slots_read_name:
  "slots_read (spec\<lparr>spec_name := n\<rparr>) private = slots_read spec private"
  by (simp add: slots_read_def new_method_def)

lemma FromSpec_Inr:
  assumes "PyArrayMethod_FromSpec_int spec private = Inr bm"
  shows "\<exists>m1. slots_read spec private = Inr m1 \<and>
           (if get_strided_loop m1 \<noteq> Npy_default_get_strided_loop
            then meth bm = m1\<lparr>name := (case spec_name spec of None \<Rightarrow> ''<unknown>'' | Some n \<Rightarrow> n)\<rparr>
            else \<exists>m2. check_loops m1 = Inr m2 \<and>
                   meth bm = m2\<lparr>name := (case spec_name spec of None \<Rightarrow> ''<unknown>'' | Some n \<Rightarrow> n)\<rparr>)"
  using assms
  unfolding PyArrayMethod_FromSpec_int_def fill_arraymethod_from_slots_def Let_def
  by (auto simp: slots_read_def new_method_def split: sum.splits if_splits option.splits)

lemma slots_read_flags: "slots_read spec priv = Inr m1 \<Longrightarrow> flags m1 = spec_flags spec"
  by (auto simp: slots_read_def new_method_def dest: fill_slots_keeps)

lemma check_loops_Inr:
  "check_loops m1 = Inr m2 \<Longrightarrow>
     strided_loop m2 = strided_loop m1 \<and> strided_loop m1 \<noteq> NullFn \<and>
     contiguous_loop m2 = (if contiguous_loop m1 = NullFn then strided_loop m1 else contiguous_loop m1) \<and>
     unaligned_strided_loop m2 = unaligned_strided_loop m1 \<and>
     unaligned_contiguous_loop m2 = unaligned_contiguous_loop m1 \<and>
     flags m2 = flags m1 \<and> get_strided_loop m2 = get_strided_loop m1 \<and>
     (unaligned_contiguous_loop m1 = NullFn \<or> unaligned_strided_loop m1 \<noteq> NullFn) \<and>
     ((unaligned_strided_loop m1 \<noteq> NullFn) = (flags m1 AND NPY_METH_SUPPORTS_UNALIGNED \<noteq> 0))"
  by (auto simp: check_loops_def Let_def split: if_splits)

lemma check_loops_Inl:
  "strided_loop m1 = NullFn \<or>
   (unaligned_contiguous_loop m1 \<noteq> NullFn \<and> unaligned_strided_loop m1 = NullFn) \<or>
   ((unaligned_strided_loop m1 \<noteq> NullFn) \<noteq> (flags m1 AND NPY_METH_SUPPORTS_UNALIGNED \<noteq> 0))
   \<Longrightarrow> \<exists>e. check_loops m1 = Inl e"
  by (auto simp: check_loops_def Let_def)

lemma FromSpec_cases:
  "(\<exists>e. PyArrayMethod_FromSpec_int spec priv = Inl e) \<or>
   (\<exists>bm m1. PyArrayMethod_FromSpec_int spec priv = Inr bm \<and> slots_read spec priv = Inr m1 \<and>
      (if get_strided_loop m1 \<noteq> Npy_default_get_strided_loop
       then meth bm = m1\<lparr>name := (case spec_name spec of None \<Rightarrow> ''<unknown>'' | Some n \<Rightarrow> n)\<rparr>
       else \<exists>m2. check_loops m1 = Inr m2 \<and>
              meth bm = m2\<lparr>name := (case spec_name spec of None \<Rightarrow> ''<unknown>'' | Some n \<Rightarrow> n)\<rparr>))"
proof (cases "PyArrayMethod_FromSpec_int spec priv")
  case (Inl e)
  then show ?thesis by blast
next
  case (Inr bm)
  from FromSpec_Inr[OF this] Inr show ?thesis by blast
qed

text \<open>
  C6.  A method built while the built-in selector stays in effect has its strided loop
  and its contiguous loop present, the contiguous loop being the strided loop when the
  slots supplied none; it has an unaligned contiguous loop only if it has an unaligned
  strided loop; and it has an unaligned strided loop exactly when the supports-unaligned
  flag is set.  A specification whose slots, with the built-in selector in effect, break
  one of these is rejected: the constructor returns an error and no object.  (The file has
  no operation that changes a method once it is built.)
\<close>

theorem built_in_selector_loops:
  "(\<forall>bm. PyArrayMethod_FromSpec_int spec priv = Inr bm \<and>
         get_strided_loop (meth bm) = Npy_default_get_strided_loop \<longrightarrow>
      strided_loop (meth bm) \<noteq> NullFn \<and>
      contiguous_loop (meth bm) \<noteq> NullFn \<and>
      (unaligned_contiguous_loop (meth bm) \<noteq> NullFn \<longrightarrow>
         unaligned_strided_loop (meth bm) \<noteq> NullFn) \<and>
      ((unaligned_strided_loop (meth bm) \<noteq> NullFn) =
         (flags (meth bm) AND NPY_METH_SUPPORTS_UNALIGNED \<noteq> 0)) \<and>
      (\<forall>m1. slots_read spec priv = Inr m1 \<and> contiguous_loop m1 = NullFn \<longrightarrow>
         contiguous_loop (meth bm) = strided_loop (meth bm))) \<and>
   (\<forall>m1. slots_read spec priv = Inr m1 \<and>
         get_strided_loop m1 = Npy_default_get_strided_loop \<and>
         (strided_loop m1 = NullFn \<or>
          (unaligned_contiguous_loop m1 \<noteq> NullFn \<and> unaligned_strided_loop m1 = NullFn) \<or>
          ((unaligned_strided_loop m1 \<noteq> NullFn) \<noteq>
             (spec_flags spec AND NPY_METH_SUPPORTS_UNALIGNED \<noteq> 0))) \<longrightarrow>
      (\<exists>e. PyArrayMethod_FromSpec_int spec priv = Inl e))"
proof (intro conjI allI impI)
  fix bm
  assume a: "PyArrayMethod_FromSpec_int spec priv = Inr bm \<and>
             get_strided_loop (meth bm) = Npy_default_get_strided_loop"
  from FromSpec_Inr[of spec priv bm] a obtain m1 m2 where
    m1: "slots_read spec priv = Inr m1" and
    m2: "check_loops m1 = Inr m2" and
    bm: "meth bm = m2\<lparr>name := (case spec_name spec of None \<Rightarrow> ''<unknown>'' | Some n \<Rightarrow> n)\<rparr>"
    by (auto split: if_splits)
  note c = check_loops_Inr[OF m2]
  show "strided_loop (meth bm) \<noteq> NullFn" using c bm by simp
  show "contiguous_loop (meth bm) \<noteq> NullFn" using c bm by (simp split: if_splits)
  show "unaligned_strided_loop (meth bm) \<noteq> NullFn"
    if "unaligned_contiguous_loop (meth bm) \<noteq> NullFn" using that c bm by auto
  show "(unaligned_strided_loop (meth bm) \<noteq> NullFn) =
          (flags (meth bm) AND NPY_METH_SUPPORTS_UNALIGNED \<noteq> 0)"
    using c bm by simp
  show "contiguous_loop (meth bm) = strided_loop (meth bm)"
    if "slots_read spec priv = Inr m1' \<and> contiguous_loop m1' = NullFn" for m1'
    using that c bm m1 by simp
next
  fix m1
  assume a: "slots_read spec priv = Inr m1 \<and>
         get_strided_loop m1 = Npy_default_get_strided_loop \<and>
         (strided_loop m1 = NullFn \<or>
          (unaligned_contiguous_loop m1 \<noteq> NullFn \<and> unaligned_strided_loop m1 = NullFn) \<or>
          ((unaligned_strided_loop m1 \<noteq> NullFn) \<noteq>
             (spec_flags spec AND NPY_METH_SUPPORTS_UNALIGNED \<noteq> 0)))"
  then have "slots_read spec priv = Inr m1" by blast
  then have fl: "flags m1 = spec_flags spec" by (rule slots_read_flags)
  from a fl obtain e where e: "check_loops m1 = Inl e"
    using check_loops_Inl[of m1] by auto
  from FromSpec_cases[of spec priv] a e
  show "\<exists>e. PyArrayMethod_FromSpec_int spec priv = Inl e" by auto
qed

lemma ex_spec_built: "PyArrayMethod_FromSpec_int ex_spec 0 = Inr ex_bound"
  by code_simp

lemma ex_spec_slots:
  "slots_read ex_spec 0 = Inr (ex_method\<lparr>name := [], contiguous_loop := NullFn\<rparr>)"
  by code_simp

lemma ex_spec_bad_slots:
  "slots_read (ex_spec\<lparr>spec_flags := 0\<rparr>) 0 =
     Inr (ex_method\<lparr>name := [], contiguous_loop := NullFn, flags := 0\<rparr>)"
  by code_simp

theorem built_in_selector_loops_witness:
  "strided_loop (meth ex_bound) \<noteq> NullFn \<and>
   contiguous_loop (meth ex_bound) = strided_loop (meth ex_bound) \<and>
   (unaligned_strided_loop (meth ex_bound) \<noteq> NullFn) =
     (flags (meth ex_bound) AND NPY_METH_SUPPORTS_UNALIGNED \<noteq> 0) \<and>
   (\<exists>e. PyArrayMethod_FromSpec_int (ex_spec\<lparr>spec_flags := 0\<rparr>) 0 = Inl e)"
proof -
  have sel: "get_strided_loop (meth ex_bound) = Npy_default_get_strided_loop"
    by (simp add: ex_bound_def ex_method_def)
  have c: "contiguous_loop (ex_method\<lparr>name := [], contiguous_loop := NullFn\<rparr>) = NullFn"
    by simp
  have bad: "get_strided_loop (ex_method\<lparr>name := [], contiguous_loop := NullFn, flags := 0\<rparr>) =
               Npy_default_get_strided_loop \<and>
             (unaligned_strided_loop (ex_method\<lparr>name := [], contiguous_loop := NullFn, flags := 0\<rparr>)
                \<noteq> NullFn) \<noteq>
             (spec_flags (ex_spec\<lparr>spec_flags := 0\<rparr>) AND NPY_METH_SUPPORTS_UNALIGNED \<noteq> 0)"
    by (simp add: ex_method_def)
  from built_in_selector_loops[of ex_spec 0] ex_spec_built sel ex_spec_slots c
  have 1: "strided_loop (meth ex_bound) \<noteq> NullFn \<and>
   contiguous_loop (meth ex_bound) = strided_loop (meth ex_bound) \<and>
   (unaligned_strided_loop (meth ex_bound) \<noteq> NullFn) =
     (flags (meth ex_bound) AND NPY_METH_SUPPORTS_UNALIGNED \<noteq> 0)"
    by blast
  from built_in_selector_loops[of "ex_spec\<lparr>spec_flags := 0\<rparr>" 0] ex_spec_bad_slots bad
  have 2: "\<exists>e. PyArrayMethod_FromSpec_int (ex_spec\<lparr>spec_flags := 0\<rparr>) 0 = Inl e"
    by blast
  from 1 2 show ?thesis by blast
qed

text \<open>
  What the loop of \<^verbatim>\<open>validate_spec\<close> accepts: every slot it visits holds a genuine
  DType class, not abstract where the slot is an input.  A null input slot and a slot
  that holds another object end in a \<^verbatim>\<open>TypeError\<close>; an abstract input ends in the
  undefined call of lines 236--238, and a null output slot in the read through the null
  pointer.
\<close>

lemma validate_dtypes_accepts:
  "validate_dtypes spec is = Inr () \<longleftrightarrow>
     (\<forall>i \<in> set is. \<exists>dt. spec_dtypes spec ! i = Some dt \<and> is_DTypeMeta dt \<and>
        (int i < spec_nin spec \<longrightarrow> \<not> is_abstract dt))"
  by (induction "is") (auto split: option.splits)

lemma validate_dtypes_rejects_input:
  assumes "int i < spec_nin spec"
    and "spec_dtypes spec ! i = None \<or> (\<exists>dt. spec_dtypes spec ! i = Some dt \<and> \<not> is_DTypeMeta dt)"
    and "validate_dtypes spec js = Inr ()"
  shows "\<exists>msg. validate_dtypes spec (js @ i # is) = Inl (PyErr PyExc_TypeError msg)"
  using assms(3,1,2)
  by (induction js) (auto split: option.splits if_splits)

lemma validate_dtypes_abstract_input:
  assumes "int i < spec_nin spec"
    and "spec_dtypes spec ! i = Some dt" and "is_DTypeMeta dt" and "is_abstract dt"
    and "validate_dtypes spec js = Inr ()"
  shows "validate_dtypes spec (js @ i # is) = Inl Undefined"
  using assms(5,1,2,3,4)
  by (induction js) (auto split: option.splits if_splits)

text \<open>
  C4.  The claim wants a DType array whose output slots are null to pass the validation.
  The code does not get there: for a null output slot the first check of the loop lets the
  slot through, and \<^verbatim>\<open>PyObject_TypeCheck\<close> then reads the type of the null pointer
  (line 229).  Here for one input of class \<open>A\<close> and one null output.
\<close>

theorem validate_spec_null_output:
  "validate_spec (ex_spec\<lparr>spec_dtypes := [Some ex_A, None]\<rparr>) = Inl Segfault \<and>
   PyArrayMethod_FromSpec_int (ex_spec\<lparr>spec_dtypes := [Some ex_A, None]\<rparr>) 0 = Inl Segfault"
  by code_simp

text \<open>
  A method built while the built-in selector stays in effect has an unaligned contiguous
  loop only together with an unaligned strided loop (lines 355--361).
\<close>

lemma built_unaligned_loops:
  assumes "PyArrayMethod_FromSpec_int spec priv = Inr bm"
    and "get_strided_loop (meth bm) = Npy_default_get_strided_loop"
    and "unaligned_strided_loop (meth bm) = NullFn"
  shows "unaligned_contiguous_loop (meth bm) = NullFn"
proof -
  from FromSpec_Inr[OF assms(1)] assms(2) obtain m1 m2 where
    m2: "check_loops m1 = Inr m2" and
    bm: "meth bm = m2\<lparr>name := (case spec_name spec of None \<Rightarrow> ''<unknown>'' | Some n \<Rightarrow> n)\<rparr>"
    by (auto split: if_splits)
  from check_loops_Inr[OF m2] bm assms(3) show ?thesis by auto
qed

text \<open>
  C10.  The default selector is total and never signals failure: for every method object,
  alignment assertion and stride vector it returns 0 with null auxiliary data and the
  method's runtime flags.  The loop it stores does not depend on the method's flags, so
  not on the supports-unaligned flag.  Called with the aligned assertion false on a method
  whose unaligned strided loop is absent -- a method built with this selector as its
  selector, which is how the file calls it (lines 738 and 864) -- it returns 0 and stores
  a null loop.
\<close>

theorem default_selector_total:
  "fst (npy_default_get_strided_loop ctx aligned strides) = 0 \<and>
   fst (snd (snd (npy_default_get_strided_loop ctx aligned strides))) = None \<and>
   snd (snd (snd (npy_default_get_strided_loop ctx aligned strides))) =
     flags (ctx_method ctx) AND NPY_METH_RUNTIME_FLAGS \<and>
   fst (snd (npy_default_get_strided_loop
               (ctx\<lparr>ctx_method := (ctx_method ctx)\<lparr>flags := f\<rparr>\<rparr>) aligned strides)) =
     fst (snd (npy_default_get_strided_loop ctx aligned strides)) \<and>
   (\<forall>spec priv bm.
      PyArrayMethod_FromSpec_int spec priv = Inr bm \<and>
      get_strided_loop (meth bm) = Npy_default_get_strided_loop \<and>
      ctx_method ctx = meth bm \<and>
      unaligned_strided_loop (meth bm) = NullFn \<longrightarrow>
      npy_default_get_strided_loop ctx 0 strides =
        (0, NullFn, None, flags (meth bm) AND NPY_METH_RUNTIME_FLAGS))"
proof -
  have built: "npy_default_get_strided_loop ctx 0 strides =
        (0, NullFn, None, flags (meth bm) AND NPY_METH_RUNTIME_FLAGS)"
    if "PyArrayMethod_FromSpec_int spec priv = Inr bm \<and>
        get_strided_loop (meth bm) = Npy_default_get_strided_loop \<and>
        ctx_method ctx = meth bm \<and>
        unaligned_strided_loop (meth bm) = NullFn" for spec priv bm
  proof -
    from that built_unaligned_loops[of spec priv bm]
    have "unaligned_contiguous_loop (meth bm) = NullFn" by blast
    with that show ?thesis
      by (simp add: npy_default_get_strided_loop_def Let_def)
  qed
  have rest: "fst (npy_default_get_strided_loop ctx aligned strides) = 0 \<and>
   fst (snd (snd (npy_default_get_strided_loop ctx aligned strides))) = None \<and>
   snd (snd (snd (npy_default_get_strided_loop ctx aligned strides))) =
     flags (ctx_method ctx) AND NPY_METH_RUNTIME_FLAGS \<and>
   fst (snd (npy_default_get_strided_loop
               (ctx\<lparr>ctx_method := (ctx_method ctx)\<lparr>flags := f\<rparr>\<rparr>) aligned strides)) =
     fst (snd (npy_default_get_strided_loop ctx aligned strides))"
    by (simp add: npy_default_get_strided_loop_def Let_def)
  from rest built show ?thesis by blast
qed

lemma ex_spec_aligned_built:
  "PyArrayMethod_FromSpec_int ex_spec_aligned 0 = Inr ex_bound_aligned"
  by code_simp

theorem default_selector_total_witness:
  "npy_default_get_strided_loop
     \<lparr>caller = None, ctx_method = meth ex_bound_aligned, descriptors = [ex_a, ex_a]\<rparr> 0 [8, 8] =
   (0, NullFn, None, 0)"
proof -
  let ?ctx = "\<lparr>caller = None, ctx_method = meth ex_bound_aligned, descriptors = [ex_a, ex_a]\<rparr>"
  have h: "get_strided_loop (meth ex_bound_aligned) = Npy_default_get_strided_loop \<and>
           ctx_method ?ctx = meth ex_bound_aligned \<and>
           unaligned_strided_loop (meth ex_bound_aligned) = NullFn"
    by (simp add: ex_bound_aligned_def ex_method_def)
  have fl: "flags (meth ex_bound_aligned) AND NPY_METH_RUNTIME_FLAGS = 0"
    by (simp add: ex_bound_aligned_def ex_method_def)
  from default_selector_total[of ?ctx 0 "[8, 8]" 0] ex_spec_aligned_built h
  have "npy_default_get_strided_loop ?ctx 0 [8, 8] =
          (0, NullFn, None, flags (meth ex_bound_aligned) AND NPY_METH_RUNTIME_FLAGS)"
    by blast
  with fl show ?thesis by simp
qed

section \<open>The default resolver: properties\<close>

text \<open>
  C2.  The claim wants the class's default instance for a slot whose class is declared
  and whose instance is absent, without a read of the absent instance.  The code reads it:
  line 71 applies \<^verbatim>\<open>NPY_DTYPE\<close> to \<^verbatim>\<open>input_descrs[i]\<close> before it chooses a branch.
  Here for a method of one input and one output of class \<open>A\<close>, the output instance
  omitted; the entry point \<^verbatim>\<open>_resolve_descriptors\<close> passes the omitted output on as
  null.
\<close>

theorem default_resolver_absent_instance:
  "default_resolve_descriptors ex_ext ex_method [Some ex_A, Some ex_A] [Some ex_a, None] =
     Inl Segfault \<and>
   boundarraymethod__resolve_descripors ex_ext ex_bound (Py_Tuple [Py_Descr ex_a, Py_None]) =
     Inl Segfault"
  by code_simp

text \<open>
  C1.  The claim wants the specification of two inputs of class \<open>A\<close> and one output of
  null class, declared same-kind, to build, and the built method to resolve two canonical
  instances of \<open>A\<close>.  The code does not get there.  Building reads the type of the null
  output class (line 229, the read of C4), so no method is built.  And the resolver, run on
  a method object with these fields with the output instance absent, reads through the
  absent instance (line 71 for a declared class and, as here, line 105 for a null class:
  the read of C2).
\<close>

theorem two_in_one_out_null_output:
  "PyArrayMethod_FromSpec_int ex_spec_2_1 0 = Inl Segfault \<and>
   default_resolve_descriptors ex_ext ex_method_2_1 [Some ex_A, Some ex_A, None]
     [Some ex_a, Some ex_a, None] = Inl Segfault"
  by code_simp

lemma check_loops_keeps:
  "check_loops m1 = Inr m2 \<Longrightarrow>
     nin m2 = nin m1 \<and> nout m2 = nout m1 \<and> casting m2 = casting m1 \<and>
     resolve_descriptors m2 = resolve_descriptors m1"
  by (auto simp: check_loops_def Let_def split: if_splits)

lemma FromSpec_fields:
  assumes "PyArrayMethod_FromSpec_int spec priv = Inr bm"
  shows "nin (meth bm) = spec_nin spec \<and> nout (meth bm) = spec_nout spec \<and>
         casting (meth bm) = spec_casting spec"
proof -
  from FromSpec_Inr[OF assms] obtain m1 where
    m1: "slots_read spec priv = Inr m1" and
    r: "if get_strided_loop m1 \<noteq> Npy_default_get_strided_loop
        then meth bm = m1\<lparr>name := (case spec_name spec of None \<Rightarrow> ''<unknown>'' | Some n \<Rightarrow> n)\<rparr>
        else \<exists>m2. check_loops m1 = Inr m2 \<and>
               meth bm = m2\<lparr>name := (case spec_name spec of None \<Rightarrow> ''<unknown>'' | Some n \<Rightarrow> n)\<rparr>"
    by blast
  from m1 have k: "nin m1 = spec_nin spec \<and> nout m1 = spec_nout spec \<and> casting m1 = spec_casting spec"
    by (auto simp: slots_read_def new_method_def dest: fill_slots_keeps)
  show ?thesis
  proof (cases "get_strided_loop m1 \<noteq> Npy_default_get_strided_loop")
    case True
    with r k show ?thesis by simp
  next
    case False
    with r obtain m2 where "check_loops m1 = Inr m2"
      "meth bm = m2\<lparr>name := (case spec_name spec of None \<Rightarrow> ''<unknown>'' | Some n \<Rightarrow> n)\<rparr>"
      by auto
    with k check_loops_keeps[of m1 m2] show ?thesis by simp
  qed
qed

lemma resolve_declared_all_given:
  assumes "\<forall>i \<in> set is. \<exists>dt d. dts ! i = Some dt \<and> ins ! i = Some d \<and>
             ob_type d = dt_addr dt \<and> byteorder_native d"
  shows "resolve_declared ext dts ins is (out, ad) =
           Inr (fold (\<lambda>i acc. acc[i := ins ! i]) is out, ad)"
  using assms
proof (induction "is" arbitrary: out)
  case Nil
  then show ?case by simp
next
  case (Cons i "is")
  from Cons.prems obtain dt d where
    h: "dts ! i = Some dt" "ins ! i = Some d" "ob_type d = dt_addr dt" "byteorder_native d"
    by auto
  from Cons.prems have rest: "\<forall>j \<in> set is. \<exists>dt d. dts ! j = Some dt \<and> ins ! j = Some d \<and>
             ob_type d = dt_addr dt \<and> byteorder_native d" by simp
  show ?case
    using h Cons.IH[OF rest] by (simp add: NPY_DTYPE_def ensure_dtype_nbo_def)
qed

lemma fold_update_upt:
  "k \<le> length out \<Longrightarrow>
     fold (\<lambda>i acc. acc[i := f i]) [0..<k] out = map f [0..<k] @ drop k out"
proof (induction k)
  case 0
  then show ?case by simp
next
  case (Suc k)
  then have "k < length out" by simp
  then have "(map f [0..<k] @ drop k out)[k := f k] = map f [0..<k] @ (drop k out)[0 := f k]"
    by (simp add: list_update_append)
  also have "(drop k out)[0 := f k] = f k # drop (Suc k) out"
    using \<open>k < length out\<close> by (simp add: Cons_nth_drop_Suc[symmetric])
  finally show ?case using Suc by simp
qed

lemma fold_update_all:
  "length ins = n \<Longrightarrow> fold (\<lambda>i acc. acc[i := ins ! i]) [0..<n] (replicate n x) = ins"
  using fold_update_upt[of n "replicate n x" "\<lambda>i. ins ! i"] map_nth[of ins] by auto

lemma default_resolver_all_given:
  assumes "length descrs = nat (nin m + nout m)"
    and "\<forall>i < length descrs. \<exists>dt d. dts ! i = Some dt \<and> descrs ! i = Some d \<and>
           ob_type d = dt_addr dt \<and> byteorder_native d"
  shows "default_resolve_descriptors ext m dts descrs = Inr (casting m, descrs)"
proof -
  have "\<forall>i \<in> set [0..<nat (nin m + nout m)]. \<exists>dt d. dts ! i = Some dt \<and> descrs ! i = Some d \<and>
           ob_type d = dt_addr dt \<and> byteorder_native d"
    using assms by simp
  from resolve_declared_all_given[OF this, of ext "replicate (nat (nin m + nout m)) None" True]
  show ?thesis
    using assms(1) by (simp add: default_resolve_descriptors_def Let_def fold_update_all)
qed

text \<open>
  C8.  For a method built with the default resolver, resolving with an instance supplied
  for every slot, each an instance of its slot's (non-null) class and already canonical
  (native byte order), returns exactly those instances, slot by slot (the same objects:
  the address is part of the value), and the method's declared casting level, which is the
  level of the specification.  Neither loop of the resolver asks whether a class is abstract
  or parametric, so the theorem needs no such hypothesis.
\<close>

theorem default_resolver_identity:
  assumes "PyArrayMethod_FromSpec_int spec priv = Inr bm"
    and "resolve_descriptors (meth bm) = Default_resolve_descriptors"
    and "length descrs = nat (nin (meth bm) + nout (meth bm))"
    and "\<forall>i < length descrs. \<exists>dt d. dtypes bm ! i = Some dt \<and> descrs ! i = Some d \<and>
           ob_type d = dt_addr dt \<and> byteorder_native d"
  shows "call_resolve_descriptors ext (meth bm) (dtypes bm) descrs =
           Inr (casting (meth bm), descrs) \<and>
         casting (meth bm) = spec_casting spec"
  using assms default_resolver_all_given[of descrs "meth bm" "dtypes bm" ext]
    FromSpec_fields[of spec priv bm]
  by (simp add: call_resolve_descriptors_def)

theorem default_resolver_identity_witness:
  "call_resolve_descriptors ex_ext (meth ex_bound) (dtypes ex_bound) [Some ex_a, Some ex_a] =
     Inr (NPY_SAME_KIND_CASTING, [Some ex_a, Some ex_a])"
proof -
  have h2: "resolve_descriptors (meth ex_bound) = Default_resolve_descriptors"
    by (simp add: ex_bound_def ex_method_def)
  have h3: "length [Some ex_a, Some ex_a] = nat (nin (meth ex_bound) + nout (meth ex_bound))"
    by (simp add: ex_bound_def ex_method_def)
  have h4: "\<forall>i < length [Some ex_a, Some ex_a]. \<exists>dt d. dtypes ex_bound ! i = Some dt \<and>
              [Some ex_a, Some ex_a] ! i = Some d \<and> ob_type d = dt_addr dt \<and> byteorder_native d"
    by (simp add: ex_bound_def ex_a_def ex_A_def nth_Cons' less_Suc_eq)
  from default_resolver_identity[OF ex_spec_built h2 h3 h4, of ex_ext]
  show ?thesis by (simp add: ex_bound_def ex_method_def NPY_SAME_KIND_CASTING_def)
qed

section \<open>The entry points: properties\<close>

text \<open>
  C3.  The claim wants every call with a read-only output rejected and no input required
  to be writable.  The code tests writability under \<^verbatim>\<open>if (i >= nout)\<close> (line 686) where
  the outputs are the slots \<^verbatim>\<open>i >= nin\<close>.  With one input and two outputs the first
  output (slot 1) is not tested: the call with a read-only array there runs the loop and
  returns.  With two inputs and one output the second input (slot 1) is tested: the call
  with a read-only input is rejected, under the message for a read-only output.
\<close>

theorem simple_strided_call_writeable_check:
  "boundarraymethod__simple_strided_call ex_ext ex_bound_1_2
     (Py_Tuple [Py_Array (ex_arr 4096 True), Py_Array (ex_arr 8192 False),
                Py_Array (ex_arr 12288 True)]) = Inr () \<and>
   boundarraymethod__simple_strided_call ex_ext ex_bound_2_1
     (Py_Tuple [Py_Array (ex_arr 4096 True), Py_Array (ex_arr 8192 False),
                Py_Array (ex_arr 12288 True)]) =
     Inl (PyErr PyExc_ValueError ''_simple_strided_call() output is read-only'')"
  by code_simp

lemma any_parametric_nonnull:
  "\<forall>i \<in> set is. dts ! i \<noteq> None \<Longrightarrow>
     any_parametric dts is =
       Inr (if \<forall>i \<in> set is. \<forall>dt. dts ! i = Some dt \<longrightarrow> \<not> is_parametric dt then 0 else 1)"
  by (induction "is") auto

text \<open>
  C9.  \<^verbatim>\<open>_resolve_descriptors\<close> on a method with a declared level (not -1), once the
  tuple is accepted and the resolver has returned a level that is not negative: it raises
  the internal fault (a \<^verbatim>\<open>RuntimeError\<close>) if and only if the conservative merge of the
  returned level, view flag stripped, with the declared level differs from the declared
  level, or no bound DType is parametric, the returned level (view flag stripped, as the
  code compares it) differs from the declared level and the declared level is not
  equivalent.  Otherwise it returns the level and the resolved descriptors; so a declared
  equivalent may come back as no-casting without a fault (the witness).  The bound DTypes
  are taken non-null: the loop of lines 586--592 reads through each of them.  (A negative
  result of the resolver is no level: the function returns it before these checks.)
\<close>

theorem resolve_level_consistency:
  assumes "int (length items) = nin (meth self) + nout (meth self)"
    and "given_descrs_from self items [0..<nat (nin (meth self) + nout (meth self))]
           (replicate (nat (nin (meth self) + nout (meth self))) None) = Inr given"
    and "call_resolve_descriptors ext (meth self) (dtypes self) given = Inr (level, loop_descrs)"
    and "0 \<le> level"
    and "\<forall>i < nat (nin (meth self) + nout (meth self)). dtypes self ! i \<noteq> None"
    and "casting (meth self) \<noteq> - 1"
  shows "((\<exists>msg. boundarraymethod__resolve_descripors ext self (Py_Tuple items) =
                  Inl (PyErr PyExc_RuntimeError msg)) \<longleftrightarrow>
          (PyArray_MinCastSafety (level AND NOT NPY_CAST_IS_VIEW) (casting (meth self)) \<noteq>
             casting (meth self) \<or>
           ((\<forall>i < nat (nin (meth self) + nout (meth self)).
               \<forall>dt. dtypes self ! i = Some dt \<longrightarrow> \<not> is_parametric dt) \<and>
            level AND NOT NPY_CAST_IS_VIEW \<noteq> casting (meth self) \<and>
            casting (meth self) \<noteq> NPY_EQUIV_CASTING))) \<and>
         ((\<nexists>msg. boundarraymethod__resolve_descripors ext self (Py_Tuple items) =
                  Inl (PyErr PyExc_RuntimeError msg)) \<longrightarrow>
          boundarraymethod__resolve_descripors ext self (Py_Tuple items) =
            Inr (level, Some loop_descrs))"
proof -
  have np: "any_parametric (dtypes self) [0..<nat (nin (meth self) + nout (meth self))] =
      Inr (if \<forall>i < nat (nin (meth self) + nout (meth self)).
                \<forall>dt. dtypes self ! i = Some dt \<longrightarrow> \<not> is_parametric dt then 0 else 1)"
    using any_parametric_nonnull[of "[0..<nat (nin (meth self) + nout (meth self))]" "dtypes self"]
      assms(5) by simp
  show ?thesis
    using assms(1-4,6) np
    by (simp add: boundarraymethod__resolve_descripors_def Let_def)
qed

theorem resolve_level_consistency_witness:
  "(\<exists>msg. boundarraymethod__resolve_descripors ex_ext ex_bound_safe
            (Py_Tuple [Py_Descr ex_a, Py_Descr ex_a]) = Inl (PyErr PyExc_RuntimeError msg)) \<and>
   boundarraymethod__resolve_descripors ex_ext ex_bound_equiv
     (Py_Tuple [Py_Descr ex_a, Py_Descr ex_a]) = Inr (0, Some [Some ex_a, Some ex_a])"
proof -
  let ?items = "[Py_Descr ex_a, Py_Descr ex_a]"
  let ?given = "[Some ex_a, Some ex_a]"
  have s1: "int (length ?items) = nin (meth ex_bound_safe) + nout (meth ex_bound_safe)"
    by code_simp
  have s2: "given_descrs_from ex_bound_safe ?items
              [0..<nat (nin (meth ex_bound_safe) + nout (meth ex_bound_safe))]
              (replicate (nat (nin (meth ex_bound_safe) + nout (meth ex_bound_safe))) None) =
            Inr ?given"
    by code_simp
  have s3: "call_resolve_descriptors ex_ext (meth ex_bound_safe) (dtypes ex_bound_safe) ?given =
              Inr (0, ?given)"
    by code_simp
  have s5: "\<forall>i < nat (nin (meth ex_bound_safe) + nout (meth ex_bound_safe)).
              dtypes ex_bound_safe ! i \<noteq> None"
    by (simp add: ex_bound_safe_def ex_method_def nth_Cons' less_Suc_eq)
  have s6: "casting (meth ex_bound_safe) \<noteq> - 1"
    by (simp add: ex_bound_safe_def ex_method_def)
  have sc: "(\<forall>i < nat (nin (meth ex_bound_safe) + nout (meth ex_bound_safe)).
               \<forall>dt. dtypes ex_bound_safe ! i = Some dt \<longrightarrow> \<not> is_parametric dt) \<and>
            0 AND NOT NPY_CAST_IS_VIEW \<noteq> casting (meth ex_bound_safe) \<and>
            casting (meth ex_bound_safe) \<noteq> NPY_EQUIV_CASTING"
    by (simp add: ex_bound_safe_def ex_method_def ex_A_def nth_Cons' less_Suc_eq
        NPY_EQUIV_CASTING_def)
  from resolve_level_consistency[OF s1 s2 s3 _ s5 s6] sc
  have fault: "\<exists>msg. boundarraymethod__resolve_descripors ex_ext ex_bound_safe (Py_Tuple ?items) =
                 Inl (PyErr PyExc_RuntimeError msg)"
    by simp
  have e1: "int (length ?items) = nin (meth ex_bound_equiv) + nout (meth ex_bound_equiv)"
    by code_simp
  have e2: "given_descrs_from ex_bound_equiv ?items
              [0..<nat (nin (meth ex_bound_equiv) + nout (meth ex_bound_equiv))]
              (replicate (nat (nin (meth ex_bound_equiv) + nout (meth ex_bound_equiv))) None) =
            Inr ?given"
    by code_simp
  have e3: "call_resolve_descriptors ex_ext (meth ex_bound_equiv) (dtypes ex_bound_equiv) ?given =
              Inr (0, ?given)"
    by code_simp
  have e5: "\<forall>i < nat (nin (meth ex_bound_equiv) + nout (meth ex_bound_equiv)).
              dtypes ex_bound_equiv ! i \<noteq> None"
    by (simp add: ex_bound_equiv_def ex_method_def nth_Cons' less_Suc_eq)
  have e6: "casting (meth ex_bound_equiv) \<noteq> - 1"
    by (simp add: ex_bound_equiv_def ex_method_def)
  have m: "PyArray_MinCastSafety (0 AND NOT NPY_CAST_IS_VIEW) (casting (meth ex_bound_equiv)) =
             casting (meth ex_bound_equiv)"
    by code_simp
  have q: "casting (meth ex_bound_equiv) = NPY_EQUIV_CASTING"
    by code_simp
  from resolve_level_consistency[OF e1 e2 e3 _ e5 e6] m q
  have ok: "boundarraymethod__resolve_descripors ex_ext ex_bound_equiv (Py_Tuple ?items) =
              Inr (0, Some ?given)"
    by simp
  from fault ok show ?thesis by blast
qed

section \<open>The masked strided loop: properties\<close>

lemma scan_spec:
  "npy_memchr_scan rd needle stride sz invert p c = (p', c') \<Longrightarrow> c \<le> sz \<Longrightarrow>
     \<exists>k::nat. c' = c + int k \<and> p' = p + int k * stride \<and> c' \<le> sz \<and>
       (\<forall>j<k. (rd (p + int j * stride) = needle) = (invert \<noteq> 0)) \<and>
       (c' < sz \<longrightarrow> (rd p' = needle) \<noteq> (invert \<noteq> 0))"
proof (induction rd needle stride sz invert p c rule: npy_memchr_scan.induct)
  case (1 rd needle stride sz invert p c)
  show ?case
  proof (cases "c < sz \<and> (rd p = needle) = (invert \<noteq> 0)")
    case True
    with "1.prems" have r: "npy_memchr_scan rd needle stride sz invert (p + stride) (c + 1) = (p', c')"
      by (subst (asm) npy_memchr_scan.simps) simp
    from True have "c + 1 \<le> sz" by simp
    from "1.IH"[OF True r this] obtain k :: nat where
      k: "c' = c + 1 + int k" "p' = p + stride + int k * stride" "c' \<le> sz"
         "\<forall>j<k. (rd (p + stride + int j * stride) = needle) = (invert \<noteq> 0)"
         "c' < sz \<longrightarrow> (rd p' = needle) \<noteq> (invert \<noteq> 0)"
      by blast
    have all: "\<forall>j<Suc k. (rd (p + int j * stride) = needle) = (invert \<noteq> 0)"
    proof (intro allI impI)
      fix j assume "j < Suc k"
      show "(rd (p + int j * stride) = needle) = (invert \<noteq> 0)"
      proof (cases j)
        case 0
        with True show ?thesis by simp
      next
        case (Suc j')
        with \<open>j < Suc k\<close> have "j' < k" by simp
        with k(4) have "(rd (p + stride + int j' * stride) = needle) = (invert \<noteq> 0)" by blast
        moreover have "p + stride + int j' * stride = p + int j * stride"
          using Suc by (simp add: algebra_simps)
        ultimately show ?thesis by simp
      qed
    qed
    have "c' = c + int (Suc k)" using k(1) by simp
    moreover have "p' = p + int (Suc k) * stride" using k(2) by (simp add: algebra_simps)
    ultimately show ?thesis using k(3,5) all by blast
  next
    case False
    with "1.prems" have "p' = p" "c' = c"
      by (subst (asm) npy_memchr_scan.simps, simp)+
    with False "1.prems"(2) show ?thesis
      by (intro exI[of _ 0]) auto
  qed
qed

lemma memchr_spec:
  assumes "npy_memchr rd p needle stride sz invert = (p', n)" and "0 \<le> sz"
  shows "\<exists>k::nat. n = int k \<and> p' = p + int k * stride \<and> n \<le> sz \<and>
       (\<forall>j<k. (rd (p + int j * stride) = needle) = (invert \<noteq> 0)) \<and>
       (n < sz \<longrightarrow> (rd p' = needle) \<noteq> (invert \<noteq> 0))"
  using scan_spec[of rd needle stride sz invert p 0 p' n] assms
  by (simp add: npy_memchr_def)

lemma memchr_empty:
  "sz \<le> 0 \<Longrightarrow> npy_memchr rd p needle stride sz invert = (p, 0)"
  unfolding npy_memchr_def by (subst npy_memchr_scan.simps) simp

lemma filter_shift:
  "filter P [a..<a + n] = map (\<lambda>j. j + a) (filter (\<lambda>j. P (j + a)) [0..<n])"
proof -
  have "[a..<a + n] = map (\<lambda>j. j + a) [0..<n]"
    using map_add_upt[of a n] by (simp add: add.commute)
  then show ?thesis by (simp add: filter_map o_def)
qed

lemma filter_runs:
  assumes "\<forall>j<k1. \<not> P j" and "\<forall>j<k2. P (k1 + j)" and "n = k1 + k2 + r"
  shows "filter P [0..<n] =
           [k1..<k1 + k2] @ map (\<lambda>j. j + (k1 + k2)) (filter (\<lambda>j. P (j + (k1 + k2))) [0..<r])"
proof -
  have s1: "[0..<k1 + k2 + r] = [0..<k1 + k2] @ [k1 + k2..<k1 + k2 + r]"
    by (rule upt_add_eq_append) simp
  have s2: "[0..<k1 + k2] = [0..<k1] @ [k1..<k1 + k2]"
    by (rule upt_add_eq_append) simp
  have a: "filter P [0..<k1] = []" using assms(1) by (simp add: filter_empty_conv)
  have b: "filter P [k1..<k1 + k2] = [k1..<k1 + k2]"
  proof (rule filter_True, safe)
    fix j assume "j \<in> set [k1..<k1 + k2]"
    then have "j - k1 < k2" "j = k1 + (j - k1)" by auto
    with assms(2) show "P j" by metis
  qed
  have c: "filter P [k1 + k2..<k1 + k2 + r] =
             map (\<lambda>j. j + (k1 + k2)) (filter (\<lambda>j. P (j + (k1 + k2))) [0..<r])"
    by (rule filter_shift)
  show ?thesis
    unfolding assms(3) s1 s2 filter_append a b c by simp
qed

lemma advance_nth:
  "i < nargs \<Longrightarrow> advance d s k nargs ! i = d ! i + k * s ! i"
  by (simp add: advance_def)

lemma visit_advance:
  "map (\<lambda>i. advance d s (int k) nargs ! i + int j * s ! i) [0..<nargs] =
   map (\<lambda>i. d ! i + int (j + k) * s ! i) [0..<nargs]"
  by (rule map_cong) (simp_all add: advance_nth algebra_simps)

lemma masked_runs_count_loop:
  "\<exists>calls. masked_runs (\<lambda>_. rd) count_loop nargs strides ms dataptrs m N calls0 =
             (0, calls0 @ calls) \<and>
     concat (map (\<lambda>(ptrs, n). map (\<lambda>k. map (\<lambda>i. ptrs ! i + int k * strides ! i) [0..<nargs])
                                   [0..<nat n]) calls) =
       map (\<lambda>j. map (\<lambda>i. dataptrs ! i + int j * strides ! i) [0..<nargs])
         (filter (\<lambda>j. rd (m + int j * ms) \<noteq> 0) [0..<nat N]) \<and>
     sum_list (map snd calls) = int (length (filter (\<lambda>j. rd (m + int j * ms) \<noteq> 0) [0..<nat N]))"
proof (induction "nat N" arbitrary: dataptrs m N calls0 rule: less_induct)
  case less
  let ?F = "\<lambda>d j. map (\<lambda>i. d ! i + int j * strides ! i) [0..<nargs]"
  let ?V = "\<lambda>calls. concat (map (\<lambda>(ptrs, n). map (?F ptrs) [0..<nat n]) calls)"
  obtain mask1 skip where a1: "npy_memchr rd m 0 ms N 1 = (mask1, skip)"
    by (cases "npy_memchr rd m 0 ms N 1") auto
  obtain mask2 run where a2: "npy_memchr rd mask1 0 ms (N - skip) 0 = (mask2, run)"
    by (cases "npy_memchr rd mask1 0 ms (N - skip) 0") auto
  define d1 where "d1 = advance dataptrs strides skip nargs"
  define d2 where "d2 = advance d1 strides run nargs"
  have unfold: "masked_runs (\<lambda>_. rd) count_loop nargs strides ms dataptrs m N calls0 =
      (if N - skip - run > 0
       then masked_runs (\<lambda>_. rd) count_loop nargs strides ms d2 mask2 (N - skip - run)
              (calls0 @ [(d1, run)])
       else (0, calls0 @ [(d1, run)]))"
    by (subst masked_runs.simps) (simp add: a1 a2 count_loop_def Let_def d1_def d2_def)
  show ?case
  proof (cases "N \<le> 0")
    case True
    with a1 have s0: "skip = 0" by (simp add: memchr_empty)
    with a2 True have r0: "run = 0" by (simp add: memchr_empty)
    show ?thesis
      using unfold True s0 r0 by (intro exI[of _ "[(d1, 0)]"]) simp
  next
    case False
    then have N0: "0 \<le> N" by simp
    from memchr_spec[OF a1 N0] obtain k1 :: nat where
      k1: "skip = int k1" "mask1 = m + int k1 * ms" "skip \<le> N"
          "\<forall>j<k1. rd (m + int j * ms) = 0" "skip < N \<longrightarrow> rd mask1 \<noteq> 0"
      by auto
    from k1(3) have N1: "0 \<le> N - skip" by simp
    from memchr_spec[OF a2 N1] obtain k2 :: nat where
      k2: "run = int k2" "mask2 = mask1 + int k2 * ms" "run \<le> N - skip"
          "\<forall>j<k2. rd (mask1 + int j * ms) \<noteq> 0" "run < N - skip \<longrightarrow> rd mask2 = 0"
      by auto
    define r where "r = nat (N - skip - run)"
    have n: "nat N = k1 + k2 + r" using k1(1,3) k2(1,3) by (simp add: r_def)
    have m2: "mask2 = m + int (k1 + k2) * ms" using k1(2) k2(2) by (simp add: algebra_simps)
    have seg: "filter (\<lambda>j. rd (m + int j * ms) \<noteq> 0) [0..<nat N] =
        [k1..<k1 + k2] @ map (\<lambda>j. j + (k1 + k2))
           (filter (\<lambda>j. rd (mask2 + int j * ms) \<noteq> 0) [0..<r])"
    proof -
      have p2: "\<forall>j<k2. rd (m + int (k1 + j) * ms) \<noteq> 0"
        using k2(4) k1(2) by (simp add: algebra_simps)
      have "(\<lambda>j. rd (m + int (j + (k1 + k2)) * ms) \<noteq> 0) = (\<lambda>j. rd (mask2 + int j * ms) \<noteq> 0)"
        by (simp add: m2 algebra_simps)
      with filter_runs[of k1 "\<lambda>j. rd (m + int j * ms) \<noteq> 0" k2 "nat N" r] k1(4) p2 n
      show ?thesis by simp
    qed
    have v1: "map (?F d1) [0..<k2] = map (?F dataptrs) [k1..<k1 + k2]"
    proof -
      have "map (?F d1) [0..<k2] = map (\<lambda>j. ?F dataptrs (j + k1)) [0..<k2]"
        unfolding d1_def k1(1) by (simp add: visit_advance)
      also have "\<dots> = map (?F dataptrs) (map (\<lambda>j. j + k1) [0..<k2])" by (simp add: o_def)
      also have "map (\<lambda>j. j + k1) [0..<k2] = [k1..<k1 + k2]"
        using map_add_upt[of k1 k2] by (simp add: add.commute)
      finally show ?thesis .
    qed
    have fd2: "?F d2 j = ?F dataptrs (j + (k1 + k2))" for j
    proof -
      have "?F d2 j = ?F d1 (j + k2)" unfolding d2_def k2(1) by (rule visit_advance)
      also have "\<dots> = ?F dataptrs (j + k2 + k1)" unfolding d1_def k1(1) by (rule visit_advance)
      finally show ?thesis by (simp add: add.assoc add.commute)
    qed
    show ?thesis
    proof (cases "N - skip - run > 0")
      case False
      then have r0: "r = 0" by (simp add: r_def)
      from unfold False have res: "masked_runs (\<lambda>_. rd) count_loop nargs strides ms dataptrs m N calls0 =
            (0, calls0 @ [(d1, run)])" by simp
      show ?thesis
        using res seg r0 v1 k2(1) by (intro exI[of _ "[(d1, run)]"]) simp
    next
      case True
      have prog: "1 \<le> k1 + k2"
      proof (rule ccontr)
        assume "\<not> 1 \<le> k1 + k2"
        then have z: "k1 = 0" "k2 = 0" by simp_all
        with k1 k2 True have "rd mask1 \<noteq> 0" "rd mask2 = 0" "mask2 = mask1" by simp_all
        then show False by simp
      qed
      have less': "nat (N - skip - run) < nat N" using True prog k1(1) k2(1) by simp
      from less.hyps[OF less', of d2 mask2 "calls0 @ [(d1, run)]"] obtain calls' where
        c: "masked_runs (\<lambda>_. rd) count_loop nargs strides ms d2 mask2 (N - skip - run)
              (calls0 @ [(d1, run)]) = (0, (calls0 @ [(d1, run)]) @ calls')"
           "?V calls' = map (?F d2) (filter (\<lambda>j. rd (mask2 + int j * ms) \<noteq> 0) [0..<r])"
           "sum_list (map snd calls') =
              int (length (filter (\<lambda>j. rd (mask2 + int j * ms) \<noteq> 0) [0..<r]))"
        unfolding r_def by blast
      from unfold True c(1) have res:
        "masked_runs (\<lambda>_. rd) count_loop nargs strides ms dataptrs m N calls0 =
           (0, calls0 @ ((d1, run) # calls'))" by simp
      have vis: "?V ((d1, run) # calls') =
          map (?F dataptrs) (filter (\<lambda>j. rd (m + int j * ms) \<noteq> 0) [0..<nat N])"
        using c(2) v1 k2(1) by (simp add: seg fd2 o_def)
      have cnt: "sum_list (map snd ((d1, run) # calls')) =
          int (length (filter (\<lambda>j. rd (m + int j * ms) \<noteq> 0) [0..<nat N]))"
        using c(3) k2(1) by (simp add: seg)
      from res vis cnt show ?thesis by blast
    qed
  qed
qed

text \<open>
  C5.  The masked wrapper around an inner loop that only records its calls, for every
  memory \<open>rd\<close>, every \<open>nargs\<close> data pointers and strides followed by the mask pointer and
  stride, and every length \<open>N\<close> (entry \<open>j\<close> of the mask is the byte at
  \<open>mask + j * mask_stride\<close>, true when it is not 0): it returns 0; the lengths of the runs
  it passes to the inner loop add up to the number of true entries among the first \<open>N\<close>;
  and the elements those calls cover, call after call and element after element (each
  given by its \<open>nargs\<close> addresses), are the elements with a true mask entry, each once, in
  increasing order.  For the mask true, true, false, false, true over 5 elements the
  nonzero run lengths passed are 2, then 1.
\<close>

theorem masked_loop_visits_unmasked:
  assumes "length data = Suc nargs" and "length strides = Suc nargs"
  shows "fst (generic_masked_strided_loop (\<lambda>_. rd) count_loop nargs data (N # dims) strides []) = 0 \<and>
     sum_list (map snd
        (snd (generic_masked_strided_loop (\<lambda>_. rd) count_loop nargs data (N # dims) strides []))) =
       int (length (filter (\<lambda>j. rd (data ! nargs + int j * strides ! nargs) \<noteq> 0) [0..<nat N])) \<and>
     concat (map (\<lambda>(ptrs, n). map (\<lambda>k. map (\<lambda>i. ptrs ! i + int k * strides ! i) [0..<nargs])
                                   [0..<nat n])
        (snd (generic_masked_strided_loop (\<lambda>_. rd) count_loop nargs data (N # dims) strides []))) =
       map (\<lambda>j. map (\<lambda>i. data ! i + int j * strides ! i) [0..<nargs])
         (filter (\<lambda>j. rd (data ! nargs + int j * strides ! nargs) \<noteq> 0) [0..<nat N]) \<and>
     filter (\<lambda>n. n \<noteq> 0)
       (map snd (snd (generic_masked_strided_loop (\<lambda>_. ex_mask_mem) count_loop 1
                        [0, 1000] [5] [8, 1] []))) = [2, 1]"
proof -
  have tk: "map (\<lambda>i. take nargs data ! i + int j * strides ! i) [0..<nargs] =
            map (\<lambda>i. data ! i + int j * strides ! i) [0..<nargs]" for j
    by (rule map_cong) simp_all
  from masked_runs_count_loop[of rd nargs strides "strides ! nargs" "take nargs data"
      "data ! nargs" N "[]"]
  obtain calls where
    c: "generic_masked_strided_loop (\<lambda>_. rd) count_loop nargs data (N # dims) strides [] = (0, calls)"
       "concat (map (\<lambda>(ptrs, n). map (\<lambda>k. map (\<lambda>i. ptrs ! i + int k * strides ! i) [0..<nargs])
                                   [0..<nat n]) calls) =
          map (\<lambda>j. map (\<lambda>i. take nargs data ! i + int j * strides ! i) [0..<nargs])
            (filter (\<lambda>j. rd (data ! nargs + int j * strides ! nargs) \<noteq> 0) [0..<nat N])"
       "sum_list (map snd calls) =
          int (length (filter (\<lambda>j. rd (data ! nargs + int j * strides ! nargs) \<noteq> 0) [0..<nat N]))"
    unfolding generic_masked_strided_loop_def by auto
  have ex: "filter (\<lambda>n. n \<noteq> 0)
       (map snd (snd (generic_masked_strided_loop (\<lambda>_. ex_mask_mem) count_loop 1
                        [0, 1000] [5] [8, 1] []))) = [2, 1]"
    by code_simp
  from c ex show ?thesis by (simp add: tk)
qed

theorem masked_loop_visits_unmasked_witness:
  "sum_list (map snd
      (snd (generic_masked_strided_loop (\<lambda>_. ex_mask_mem) count_loop 1 [0, 1000] [5] [8, 1] []))) = 3 \<and>
   concat (map (\<lambda>(ptrs, n). map (\<lambda>k. map (\<lambda>i. ptrs ! i + int k * [8, 1] ! i) [0..<1])
                                 [0..<nat n])
      (snd (generic_masked_strided_loop (\<lambda>_. ex_mask_mem) count_loop 1 [0, 1000] [5] [8, 1] []))) =
     [[0], [8], [32]]"
proof -
  have l1: "length [0::int, 1000] = Suc 1" and l2: "length [8::int, 1] = Suc 1" by simp_all
  have f: "filter (\<lambda>j. ex_mask_mem ([0, 1000] ! 1 + int j * [8, 1] ! 1) \<noteq> 0) [0..<nat 5] = [0, 1, 4]"
    by code_simp
  from masked_loop_visits_unmasked[OF l1 l2, of ex_mask_mem 5 "[]"]
  show ?thesis unfolding f by simp
qed

end
